theory Spec2Isabelle
  imports Complex_Main
begin

section \<open>JavaScript values\<close>

text \<open>
  The library is TypeScript whose public methods take \<^verbatim>\<open>any\<close>: a token string or a
  parameter object, identifiers of type \<^verbatim>\<open>string | number | Object\<close>, and JSON read
  back from a token header. The values are modelled by one datatype. An object is the
  list of its own enumerable properties in enumeration order (for keys that are not
  array indices that is insertion order), which is the order \<^verbatim>\<open>JSON.stringify\<close>
  follows. Numbers are rationals: the instants of this library are \<^verbatim>\<open>+new Date() / 1000\<close>,
  and \<^verbatim>\<open>NaN\<close> and the infinities, which JSON cannot carry, are left out.
  \<open>JFun\<close> is an opaque function value (a callback).
\<close>

datatype jsval =
    JUndefined
  | JNull
  | JBool bool
  | JNum rat
  | JStr string
  | JArr "jsval list"
  | JObj "(string \<times> jsval) list"
  | JFun

datatype js_type = TUndefined | TObject | TBoolean | TNumber | TString | TFunction

text \<open>The \<^verbatim>\<open>typeof\<close> operator; \<^verbatim>\<open>typeof null\<close> is \<^verbatim>\<open>'object'\<close>.\<close>

fun typeof :: "jsval \<Rightarrow> js_type" where
  "typeof JUndefined = TUndefined"
| "typeof JNull = TObject"
| "typeof (JBool b) = TBoolean"
| "typeof (JNum n) = TNumber"
| "typeof (JStr s) = TString"
| "typeof (JArr xs) = TObject"
| "typeof (JObj ps) = TObject"
| "typeof JFun = TFunction"

text \<open>Truthiness, as \<^verbatim>\<open>if (x)\<close>, \<^verbatim>\<open>!x\<close>, \<^verbatim>\<open>x && y\<close> and \<^verbatim>\<open>x || y\<close> test it.\<close>

fun truthy :: "jsval \<Rightarrow> bool" where
  "truthy JUndefined = False"
| "truthy JNull = False"
| "truthy (JBool b) = b"
| "truthy (JNum n) = (n \<noteq> 0)"
| "truthy (JStr s) = (s \<noteq> [])"
| "truthy (JArr xs) = True"
| "truthy (JObj ps) = True"
| "truthy JFun = True"

text \<open>
  Reading a property. Of the names the library reads (\<^verbatim>\<open>user\<close>, \<^verbatim>\<open>client\<close>,
  \<^verbatim>\<open>precise\<close>, \<^verbatim>\<open>iat\<close>, \<^verbatim>\<open>jwti\<close>, \<^verbatim>\<open>header\<close>) only a plain object can hold one;
  on a primitive, an array or a function the read gives \<^verbatim>\<open>undefined\<close>. Reading a
  property of \<^verbatim>\<open>undefined\<close> or \<^verbatim>\<open>null\<close> throws; the callers below test for those two
  values before they read.
\<close>

fun get_prop :: "jsval \<Rightarrow> string \<Rightarrow> jsval" where
  "get_prop (JObj ps) k = (case map_of ps k of None \<Rightarrow> JUndefined | Some v \<Rightarrow> v)"
| "get_prop v k = JUndefined"

fun nullish :: "jsval \<Rightarrow> bool" where
  "nullish JUndefined = True"
| "nullish JNull = True"
| "nullish v = False"

text \<open>Assigning a property keeps the position of an existing key and appends a new one.\<close>

fun obj_set :: "(string \<times> jsval) list \<Rightarrow> string \<Rightarrow> jsval \<Rightarrow> (string \<times> jsval) list" where
  "obj_set [] k v = [(k, v)]"
| "obj_set (p # ps) k v = (if fst p = k then (k, v) # ps else p # obj_set ps k v)"

text \<open>The \<^verbatim>\<open>delete\<close> operator on an own property.\<close>

definition obj_delete :: "(string \<times> jsval) list \<Rightarrow> string \<Rightarrow> (string \<times> jsval) list" where
  "obj_delete ps k = filter (\<lambda>p. fst p \<noteq> k) ps"

subsection \<open>Number to string\<close>

text \<open>
  A number is written the way JavaScript prints a double whose shortest decimal form is
  the given rational: an optional sign, the integer digits, and the fraction digits when
  there are any (at most 20 are produced; a double never needs more than 17 significant
  digits). Exponent notation, used beyond \<open>10\<^sup>2\<^sup>1\<close> and below \<open>10\<^sup>-\<^sup>6\<close>, is not modelled.
\<close>

definition digit_char :: "nat \<Rightarrow> char" where
  "digit_char d = ''0123456789abcdef'' ! (d mod 16)"

fun nat_digits :: "nat \<Rightarrow> string" where
  "nat_digits n =
     (if n < 10 then [digit_char n] else nat_digits (n div 10) @ [digit_char (n mod 10)])"

declare nat_digits.simps [simp del]

fun frac_digits :: "nat \<Rightarrow> rat \<Rightarrow> string" where
  "frac_digits 0 r = []"
| "frac_digits (Suc fuel) r =
     (if r = 0 then []
      else digit_char (nat \<lfloor>r * 10\<rfloor>) # frac_digits fuel (r * 10 - of_int \<lfloor>r * 10\<rfloor>))"

definition number_to_string :: "rat \<Rightarrow> string" where
  "number_to_string r =
     (let a = \<bar>r\<bar>; f = a - of_int \<lfloor>a\<rfloor>
      in (if r < 0 then ''-'' else []) @ nat_digits (nat \<lfloor>a\<rfloor>) @
         (if f = 0 then [] else ''.'' @ frac_digits 20 f))"

subsection \<open>JSON.stringify\<close>

text \<open>
  A string is quoted, with the quote, the backslash and the control characters escaped.
\<close>

definition json_escape :: "char \<Rightarrow> string" where
  "json_escape c =
     (if c = CHR 0x22 then [CHR 0x5C, CHR 0x22]
      else if c = CHR 0x5C then [CHR 0x5C, CHR 0x5C]
      else if c = CHR 0x08 then [CHR 0x5C, CHR ''b'']
      else if c = CHR 0x09 then [CHR 0x5C, CHR ''t'']
      else if c = CHR 0x0A then [CHR 0x5C, CHR ''n'']
      else if c = CHR 0x0C then [CHR 0x5C, CHR ''f'']
      else if c = CHR 0x0D then [CHR 0x5C, CHR ''r'']
      else if (of_char c :: nat) < 32
        then [CHR 0x5C, CHR ''u'', CHR ''0'', CHR ''0'',
              digit_char (of_char c div 16), digit_char (of_char c mod 16)]
      else [c])"

definition json_quote :: "string \<Rightarrow> string" where
  "json_quote s = [CHR 0x22] @ concat (map json_escape s) @ [CHR 0x22]"

fun join_comma :: "string list \<Rightarrow> string" where
  "join_comma [] = []"
| "join_comma [x] = x"
| "join_comma (x # y # ys) = x @ '','' @ join_comma (y # ys)"

text \<open>
  \<^verbatim>\<open>JSON.stringify\<close> returns \<^verbatim>\<open>undefined\<close> (here \<open>None\<close>) for \<^verbatim>\<open>undefined\<close> and for a
  function. Inside an array such an element is written \<^verbatim>\<open>null\<close>; inside an object the
  property is left out. The properties of an object are written in enumeration order:
  nothing sorts them.
\<close>

fun stringify :: "jsval \<Rightarrow> string option"
  and stringify_elems :: "jsval list \<Rightarrow> string list"
  and stringify_props :: "(string \<times> jsval) list \<Rightarrow> string list" where
  "stringify JUndefined = None"
| "stringify JNull = Some ''null''"
| "stringify (JBool b) = Some (if b then ''true'' else ''false'')"
| "stringify (JNum n) = Some (number_to_string n)"
| "stringify (JStr s) = Some (json_quote s)"
| "stringify (JArr xs) = Some (''['' @ join_comma (stringify_elems xs) @ '']'')"
| "stringify (JObj ps) = Some (''{'' @ join_comma (stringify_props ps) @ ''}'')"
| "stringify JFun = None"
| "stringify_elems [] = []"
| "stringify_elems (x # xs) =
     (case stringify x of None \<Rightarrow> ''null'' | Some s \<Rightarrow> s) # stringify_elems xs"
| "stringify_props [] = []"
| "stringify_props (p # ps) =
     (case stringify (snd p) of
        None \<Rightarrow> stringify_props ps
      | Some s \<Rightarrow> (json_quote (fst p) @ '':'' @ s) # stringify_props ps)"

section \<open>The key/value store\<close>

text \<open>
  The Redis client is used through \<^verbatim>\<open>get\<close>, \<^verbatim>\<open>set\<close> and \<^verbatim>\<open>del\<close>. The store is a map
  from keys to the numbers written with \<^verbatim>\<open>set(key, invalidationTime)\<close>: Redis keeps the
  decimal string of the number, \<^verbatim>\<open>get\<close> returns that string and \<^verbatim>\<open>parseFloat\<close> gives
  the number back, so the model keeps the number. The decimal string of a number is
  never empty, hence always truthy.

  A call to the client can reject (connection lost, timeout). \<open>fails\<close> says which
  calls reject; a rejected call raises \<open>StoreError\<close> and leaves the map as it was.
\<close>

datatype store_op = OpGet string | OpSet string | OpDel string

record redis =
  kv :: "string \<rightharpoonup> rat"
  fails :: "store_op \<Rightarrow> bool"

datatype InvalidationType = TYPE_TOKEN | TYPE_USER_CLIENT | TYPE_USER | TYPE_CLIENT

datatype error =
    StoreError
  | TypeError
  | JwtError string
  | InvalidatedTokenError InvalidationType rat

definition redis_get :: "redis \<Rightarrow> string \<Rightarrow> error + rat option" where
  "redis_get st k = (if fails st (OpGet k) then Inl StoreError else Inr (kv st k))"

definition redis_set :: "redis \<Rightarrow> string \<Rightarrow> rat \<Rightarrow> error + redis" where
  "redis_set st k v =
     (if fails st (OpSet k) then Inl StoreError else Inr (st\<lparr>kv := (kv st)(k \<mapsto> v)\<rparr>))"

definition redis_del :: "redis \<Rightarrow> string \<Rightarrow> error + redis" where
  "redis_del st k =
     (if fails st (OpDel k) then Inl StoreError else Inr (st\<lparr>kv := (kv st)(k := None)\<rparr>))"

section \<open>Invalidation keys\<close>

text \<open>
  Every helper of the class derives its key with the same two expressions:
  \<^verbatim>\<open>typeof x === 'string' ? x : JSON.stringify(x)\<close> and a template literal around it.
  A template literal prints \<^verbatim>\<open>undefined\<close> as the word \<^verbatim>\<open>undefined\<close>.
\<close>

definition identKey :: "jsval \<Rightarrow> string" where
  "identKey x =
     (case x of
        JStr s \<Rightarrow> s
      | _ \<Rightarrow> (case stringify x of None \<Rightarrow> ''undefined'' | Some s \<Rightarrow> s))"

text \<open>\<^verbatim>\<open>`user::${userKey}`\<close>\<close>

definition userInvalidationKey :: "jsval \<Rightarrow> string" where
  "userInvalidationKey u = ''user::'' @ identKey u"

text \<open>
  \<^verbatim>\<open>`user::${clientKey}`\<close>: \<^verbatim>\<open>createClientInvalidation\<close>, \<^verbatim>\<open>getClientInvalidationTime\<close>
  and \<^verbatim>\<open>removeClientInvalidation\<close> all write the prefix \<^verbatim>\<open>user::\<close>.
\<close>

definition clientInvalidationKey :: "jsval \<Rightarrow> string" where
  "clientInvalidationKey c = ''user::'' @ identKey c"

text \<open>\<^verbatim>\<open>`user::${userKey}::client::${clientKey}`\<close>\<close>

definition userClientInvalidationKey :: "jsval \<Rightarrow> jsval \<Rightarrow> string" where
  "userClientInvalidationKey u c = ''user::'' @ identKey u @ ''::client::'' @ identKey c"

section \<open>The invalidation registry\<close>

text \<open>
  \<open>date_now\<close> is the reading of the clock, \<^verbatim>\<open>+new Date()\<close>, in milliseconds; the
  instant stored is \<^verbatim>\<open>+new Date() / 1000\<close>. The \<^verbatim>\<open>create\<close> helpers have no
  \<^verbatim>\<open>try\<close>: a rejected \<^verbatim>\<open>set\<close> rejects the call.
\<close>

definition invalidationTime_now :: "int \<Rightarrow> rat" where
  "invalidationTime_now date_now = of_int date_now / 1000"

definition createTokenInvalidation :: "int \<Rightarrow> redis \<Rightarrow> string \<Rightarrow> error + redis" where
  "createTokenInvalidation date_now st token =
     redis_set st token (invalidationTime_now date_now)"

definition createUserInvalidation :: "int \<Rightarrow> redis \<Rightarrow> jsval \<Rightarrow> error + redis" where
  "createUserInvalidation date_now st u =
     redis_set st (userInvalidationKey u) (invalidationTime_now date_now)"

definition createClientInvalidation :: "int \<Rightarrow> redis \<Rightarrow> jsval \<Rightarrow> error + redis" where
  "createClientInvalidation date_now st c =
     redis_set st (clientInvalidationKey c) (invalidationTime_now date_now)"

definition createUserClientInvalidation :: "int \<Rightarrow> redis \<Rightarrow> jsval \<Rightarrow> jsval \<Rightarrow> error + redis" where
  "createUserClientInvalidation date_now st u c =
     redis_set st (userClientInvalidationKey u c) (invalidationTime_now date_now)"

text \<open>
  The \<^verbatim>\<open>get\<close> helpers wrap the read in \<^verbatim>\<open>try\<close>/\<^verbatim>\<open>catch\<close>, log the error and return
  \<^verbatim>\<open>null\<close> (here \<open>None\<close>).
\<close>

definition getTokenInvalidationTime :: "redis \<Rightarrow> string \<Rightarrow> rat option" where
  "getTokenInvalidationTime st token =
     (case redis_get st token of Inl e \<Rightarrow> None | Inr v \<Rightarrow> v)"

definition getUserInvalidationTime :: "redis \<Rightarrow> jsval \<Rightarrow> rat option" where
  "getUserInvalidationTime st u =
     (case redis_get st (userInvalidationKey u) of Inl e \<Rightarrow> None | Inr v \<Rightarrow> v)"

definition getClientInvalidationTime :: "redis \<Rightarrow> jsval \<Rightarrow> rat option" where
  "getClientInvalidationTime st c =
     (case redis_get st (clientInvalidationKey c) of Inl e \<Rightarrow> None | Inr v \<Rightarrow> v)"

definition getUserClientInvalidationTime :: "redis \<Rightarrow> jsval \<Rightarrow> jsval \<Rightarrow> rat option" where
  "getUserClientInvalidationTime st u c =
     (case redis_get st (userClientInvalidationKey u c) of Inl e \<Rightarrow> None | Inr v \<Rightarrow> v)"

text \<open>Truthiness of a \<^verbatim>\<open>number | null\<close>: \<^verbatim>\<open>null\<close> and \<open>0\<close> are falsy.\<close>

fun truthy_time :: "rat option \<Rightarrow> bool" where
  "truthy_time None = False"
| "truthy_time (Some t) = (t \<noteq> 0)"

text \<open>
  \<^verbatim>\<open>revertTokenInvalidation\<close> reads and deletes with no \<^verbatim>\<open>try\<close>, and tests the string
  that \<^verbatim>\<open>get\<close> returned, which is truthy whenever the key is there.
\<close>

definition revertTokenInvalidation :: "redis \<Rightarrow> string \<Rightarrow> error + bool \<times> redis" where
  "revertTokenInvalidation st token =
     (case redis_get st token of
        Inl e \<Rightarrow> Inl e
      | Inr None \<Rightarrow> Inr (False, st)
      | Inr (Some t) \<Rightarrow>
          (case redis_del st token of Inl e \<Rightarrow> Inl e | Inr st' \<Rightarrow> Inr (True, st')))"

text \<open>The \<^verbatim>\<open>remove\<close> helpers catch and log a rejected \<^verbatim>\<open>del\<close>.\<close>

definition removeUserClientInvalidation :: "redis \<Rightarrow> jsval \<Rightarrow> jsval \<Rightarrow> redis" where
  "removeUserClientInvalidation st u c =
     (case redis_del st (userClientInvalidationKey u c) of Inl e \<Rightarrow> st | Inr st' \<Rightarrow> st')"

definition removeUserInvalidation :: "redis \<Rightarrow> jsval \<Rightarrow> redis" where
  "removeUserInvalidation st u =
     (case redis_del st (userInvalidationKey u) of Inl e \<Rightarrow> st | Inr st' \<Rightarrow> st')"

definition removeClientInvalidation :: "redis \<Rightarrow> jsval \<Rightarrow> redis" where
  "removeClientInvalidation st c =
     (case redis_del st (clientInvalidationKey c) of Inl e \<Rightarrow> st | Inr st' \<Rightarrow> st')"

definition revertUserClientInvalidation :: "redis \<Rightarrow> jsval \<Rightarrow> jsval \<Rightarrow> bool \<times> redis" where
  "revertUserClientInvalidation st u c =
     (if truthy_time (getUserClientInvalidationTime st u c)
      then (True, removeUserClientInvalidation st u c)
      else (False, st))"

definition revertUserInvalidation :: "redis \<Rightarrow> jsval \<Rightarrow> bool \<times> redis" where
  "revertUserInvalidation st u =
     (if truthy_time (getUserInvalidationTime st u)
      then (True, removeUserInvalidation st u)
      else (False, st))"

definition revertClientInvalidation :: "redis \<Rightarrow> jsval \<Rightarrow> bool \<times> redis" where
  "revertClientInvalidation st c =
     (if truthy_time (getClientInvalidationTime st c)
      then (True, removeClientInvalidation st c)
      else (False, st))"

text \<open>
  \<^verbatim>\<open>revert(params)\<close>: a string is a token; otherwise \<^verbatim>\<open>user\<close> and \<^verbatim>\<open>client\<close> are
  destructured from the argument (which throws on \<^verbatim>\<open>undefined\<close> and \<^verbatim>\<open>null\<close>) and
  tested for truthiness.
\<close>

definition revert :: "redis \<Rightarrow> jsval \<Rightarrow> error + bool \<times> redis" where
  "revert st params =
     (case params of
        JStr token \<Rightarrow> revertTokenInvalidation st token
      | _ \<Rightarrow>
          if nullish params then Inl TypeError
          else
            let u = get_prop params ''user''; c = get_prop params ''client''
            in if truthy u \<and> truthy c then Inr (revertUserClientInvalidation st u c)
               else if truthy u then Inr (revertUserInvalidation st u)
               else if truthy c then Inr (revertClientInvalidation st c)
               else Inr (False, st))"

definition jwtiParamExists :: "jsval \<Rightarrow> bool" where
  "jwtiParamExists param = (param \<noteq> JNull \<and> param \<noteq> JUndefined)"

text \<open>
  \<^verbatim>\<open>invalidate(params)\<close>: the same dispatch, with \<^verbatim>\<open>jwtiParamExists\<close> in place of
  truthiness; when neither parameter exists the function falls off its end.
\<close>

definition invalidate :: "int \<Rightarrow> redis \<Rightarrow> jsval \<Rightarrow> error + redis" where
  "invalidate date_now st params =
     (case params of
        JStr token \<Rightarrow> createTokenInvalidation date_now st token
      | _ \<Rightarrow>
          if nullish params then Inl TypeError
          else
            let u = get_prop params ''user''; c = get_prop params ''client''
            in if jwtiParamExists u \<and> jwtiParamExists c
                 then createUserClientInvalidation date_now st u c
               else if jwtiParamExists u then createUserInvalidation date_now st u
               else if jwtiParamExists c then createClientInvalidation date_now st c
               else Inr st)"

section \<open>The signing service\<close>

text \<open>
  \<^verbatim>\<open>jsonwebtoken\<close> is handed to the constructor and is not part of the class: its three
  functions are parameters. \<^verbatim>\<open>verify\<close> throws on a bad signature and returns the payload
  (or \<^verbatim>\<open>undefined\<close> when it is given a callback); \<^verbatim>\<open>decode\<close> with \<^verbatim>\<open>complete: true\<close>
  returns \<^verbatim>\<open>{header, payload, signature}\<close> or \<^verbatim>\<open>null\<close>.
\<close>

record Jwt =
  jwt_sign :: "jsval \<Rightarrow> jsval \<Rightarrow> jsval \<Rightarrow> jsval \<Rightarrow> error + jsval"
  jwt_verify :: "string \<Rightarrow> jsval \<Rightarrow> jsval \<Rightarrow> jsval \<Rightarrow> error + jsval"
  jwt_decode :: "string \<Rightarrow> jsval"

section \<open>sign\<close>

text \<open>\<^verbatim>\<open>Object.assign({ user, client, iat })\<close>\<close>

definition createJwtiHeader :: "jsval \<Rightarrow> jsval \<Rightarrow> jsval \<Rightarrow> jsval" where
  "createJwtiHeader u c iat = JObj [(''user'', u), (''client'', c), (''iat'', iat)]"

text \<open>
  The own enumerable properties that a spread \<^verbatim>\<open>{...x}\<close> or \<^verbatim>\<open>Object.assign\<close> copies:
  the properties of an object, the indexed elements of an array and of a string.
\<close>

fun own_props :: "jsval \<Rightarrow> (string \<times> jsval) list" where
  "own_props (JObj ps) = ps"
| "own_props (JArr xs) = zip (map nat_digits [0 ..< length xs]) xs"
| "own_props (JStr s) = zip (map nat_digits [0 ..< length s]) (map (\<lambda>ch. JStr [ch]) s)"
| "own_props v = []"

text \<open>
  \<^verbatim>\<open>delete options.user\<close> and its two siblings change the object the caller passed; on
  anything but a plain object there is no such property and nothing changes.
\<close>

fun delete_prop :: "jsval \<Rightarrow> string \<Rightarrow> jsval" where
  "delete_prop (JObj ps) k = JObj (obj_delete ps k)"
| "delete_prop v k = v"

text \<open>
  \<^verbatim>\<open>Object.assign(options?.header || {}, { jwti: jwtiHeader })\<close> returns the header to
  sign with, and writes \<^verbatim>\<open>jwti\<close> into \<^verbatim>\<open>options.header\<close> itself when that is an object
  (the target of \<^verbatim>\<open>Object.assign\<close> is the caller's object, not a copy). The pair is the
  header and the options object afterwards. \<^verbatim>\<open>SignOptions.header\<close> is typed as an
  object; for another truthy value the result is rendered by its enumerable properties.
\<close>

definition assign_jwti_header :: "jsval \<Rightarrow> jsval \<Rightarrow> jsval \<times> jsval" where
  "assign_jwti_header options jwtiHeader =
     (let h = get_prop options ''header''
      in if \<not> truthy h then (JObj [(''jwti'', jwtiHeader)], options)
         else
           (case h of
              JObj hs \<Rightarrow>
                (let header = JObj (obj_set hs ''jwti'' jwtiHeader)
                 in (header, JObj (obj_set (own_props options) ''header'' header)))
            | _ \<Rightarrow> (JObj (obj_set (own_props h) ''jwti'' jwtiHeader), options)))"

text \<open>
  \<^verbatim>\<open>sign(payload, secretOrPrivateKey, options?, callback?)\<close>. The result is what
  \<^verbatim>\<open>jwt.sign\<close> gave, paired with the \<^verbatim>\<open>options\<close> argument as the caller finds it
  afterwards. Destructuring \<^verbatim>\<open>null\<close> throws (\<^verbatim>\<open>typeof null\<close> is \<^verbatim>\<open>'object'\<close>).
\<close>

definition sign :: "Jwt \<Rightarrow> int \<Rightarrow> jsval \<Rightarrow> jsval \<Rightarrow> jsval \<Rightarrow> jsval \<Rightarrow> (error + jsval) \<times> jsval" where
  "sign jwt date_now payload secretOrPrivateKey options callback =
     (let src = (if typeof options = TObject then options else JObj [])
      in if nullish src then (Inl TypeError, options)
         else
           let u = get_prop src ''user'';
               c = get_prop src ''client'';
               precise = (let p = get_prop src ''precise''
                          in if p = JUndefined then JBool False else p);
               iat = (if truthy precise \<or> typeof payload \<noteq> TObject
                      then JNum (of_int date_now / 1000) else JUndefined)
           in if \<not> truthy options \<or> typeof options = TFunction then
                (if \<not> truthy iat
                 then (jwt_sign jwt payload secretOrPrivateKey options callback, options)
                 else
                   (jwt_sign jwt payload secretOrPrivateKey
                      (JObj [(''header'',
                              JObj [(''jwti'', createJwtiHeader JUndefined JUndefined iat)])])
                      options,
                    options))
              else
                let jwtiHeader = createJwtiHeader u c iat;
                    (header, options1) = assign_jwti_header options jwtiHeader;
                    options2 = delete_prop (delete_prop (delete_prop options1 ''user'')
                                              ''client'') ''precise''
                in (jwt_sign jwt payload secretOrPrivateKey
                      (JObj (obj_set (own_props options2) ''header'' header)) callback,
                    options2))"

section \<open>verify\<close>

text \<open>
  \<^verbatim>\<open>invalidationTime && iat - invalidationTime < 0\<close>: falsy when there is no record or
  the instant is \<open>0\<close>, otherwise the comparison.
\<close>

fun invalid_after :: "rat \<Rightarrow> rat option \<Rightarrow> bool" where
  "invalid_after iat None = False"
| "invalid_after iat (Some t) = (t \<noteq> 0 \<and> iat - t < 0)"

text \<open>\<^verbatim>\<open>Number(invalidationTime)\<close>; \<^verbatim>\<open>Number(null)\<close> is \<open>0\<close>.\<close>

fun Number_time :: "rat option \<Rightarrow> rat" where
  "Number_time None = 0"
| "Number_time (Some t) = t"

fun num_value :: "jsval \<Rightarrow> rat" where
  "num_value (JNum n) = n"
| "num_value v = 0"

text \<open>
  The four checks at the end of \<^verbatim>\<open>verify\<close>, each \<open>Some\<close> the error it throws. They are
  consecutive \<^verbatim>\<open>if\<close> statements, not an \<^verbatim>\<open>else if\<close> chain: a check that does not throw
  is followed by the next one, and the token check is last and unconditional. The
  client check calls \<^verbatim>\<open>getUserInvalidationTime(client)\<close>.
\<close>

definition check_user_client :: "redis \<Rightarrow> jsval \<Rightarrow> jsval \<Rightarrow> rat \<Rightarrow> error option" where
  "check_user_client st u c iat =
     (if jwtiParamExists u \<and> jwtiParamExists c then
        (let invalidationTime = getUserClientInvalidationTime st u c
         in if invalid_after iat invalidationTime
            then Some (InvalidatedTokenError TYPE_USER_CLIENT (Number_time invalidationTime))
            else None)
      else None)"

definition check_user :: "redis \<Rightarrow> jsval \<Rightarrow> rat \<Rightarrow> error option" where
  "check_user st u iat =
     (if jwtiParamExists u then
        (let invalidationTime = getUserInvalidationTime st u
         in if invalid_after iat invalidationTime
            then Some (InvalidatedTokenError TYPE_USER (Number_time invalidationTime))
            else None)
      else None)"

definition check_client :: "redis \<Rightarrow> jsval \<Rightarrow> rat \<Rightarrow> error option" where
  "check_client st c iat =
     (if jwtiParamExists c then
        (let invalidationTime = getUserInvalidationTime st c
         in if invalid_after iat invalidationTime
            then Some (InvalidatedTokenError TYPE_CLIENT (Number_time invalidationTime))
            else None)
      else None)"

definition check_token :: "redis \<Rightarrow> string \<Rightarrow> rat \<Rightarrow> error option" where
  "check_token st token iat =
     (let invalidationTime = getTokenInvalidationTime st token
      in if invalid_after iat invalidationTime
         then Some (InvalidatedTokenError TYPE_TOKEN (Number_time invalidationTime))
         else None)"

definition verify_checks :: "redis \<Rightarrow> string \<Rightarrow> jsval \<Rightarrow> jsval \<Rightarrow> rat \<Rightarrow> jsval \<Rightarrow> error + jsval" where
  "verify_checks st token u c iat decoded =
     (case check_user_client st u c iat of
        Some e \<Rightarrow> Inl e
      | None \<Rightarrow>
     (case check_user st u iat of
        Some e \<Rightarrow> Inl e
      | None \<Rightarrow>
     (case check_client st c iat of
        Some e \<Rightarrow> Inl e
      | None \<Rightarrow>
     (case check_token st token iat of
        Some e \<Rightarrow> Inl e
      | None \<Rightarrow> Inr decoded))))"

text \<open>
  The branch under \<^verbatim>\<open>if (!jwtiHeader)\<close>, written for a token without metadata: the
  token record alone, compared with \<^verbatim>\<open>iat - invalidationTime > 0\<close> when both instants
  are there, and otherwise invalid as soon as there is a record.
\<close>

definition verify_no_header :: "redis \<Rightarrow> string \<Rightarrow> jsval \<Rightarrow> jsval \<Rightarrow> error + jsval" where
  "verify_no_header st token iat decoded =
     (let invalidationTime = getTokenInvalidationTime st token;
          invalid = (if truthy iat \<and> typeof iat = TNumber \<and> truthy_time invalidationTime
                     then num_value iat - Number_time invalidationTime > 0
                     else truthy_time invalidationTime)
      in if invalid
         then Inl (InvalidatedTokenError TYPE_TOKEN (Number_time invalidationTime))
         else Inr decoded)"

text \<open>
  \<^verbatim>\<open>verify(token, secretOrPublicKey, options?, callback?)\<close>. \<^verbatim>\<open>jwtiHeader\<close> is
  \<^verbatim>\<open>header.jwti || {}\<close>, and \<^verbatim>\<open>iat\<close> is \<^verbatim>\<open>jwtiHeader.iat || decoded.iat\<close>. Reading
  \<^verbatim>\<open>header.jwti\<close> throws when the decoded token has no header.
\<close>

definition verify :: "Jwt \<Rightarrow> redis \<Rightarrow> string \<Rightarrow> jsval \<Rightarrow> jsval \<Rightarrow> jsval \<Rightarrow> error + jsval" where
  "verify jwt st token secretOrPublicKey options callback =
     (case jwt_verify jwt token secretOrPublicKey options callback of
        Inl e \<Rightarrow> Inl e
      | Inr decoded \<Rightarrow>
          if \<not> truthy decoded then Inr JUndefined
          else
            let complete = (let d = jwt_decode jwt token in if truthy d then d else JObj []);
                header = get_prop complete ''header''
            in if nullish header then Inl TypeError
               else
                 let jwtiHeader = (let j = get_prop header ''jwti''
                                   in if truthy j then j else JObj []);
                     u = get_prop jwtiHeader ''user'';
                     c = get_prop jwtiHeader ''client'';
                     iat = (let i = get_prop jwtiHeader ''iat''
                            in if truthy i then i else get_prop decoded ''iat'')
                 in if \<not> truthy jwtiHeader then verify_no_header st token iat decoded
                    else if \<not> truthy iat \<or> typeof iat \<noteq> TNumber then Inr decoded
                    else verify_checks st token u c (num_value iat) decoded)"

section \<open>Notions used in the statements\<close>

text \<open>
  A record under key \<open>k\<close> that a lookup can read and whose invalidation instant is
  strictly greater than the issuance instant \<open>iat\<close>.
\<close>

definition record_newer :: "redis \<Rightarrow> string \<Rightarrow> rat \<Rightarrow> bool" where
  "record_newer st k iat = (case redis_get st k of Inr (Some t) \<Rightarrow> iat < t | _ \<Rightarrow> False)"

text \<open>
  A signing service for the examples: it accepts every token, returns \<open>decoded\<close> as the
  payload and decodes every token to the given header.
\<close>

definition example_jwt :: "jsval \<Rightarrow> jsval \<Rightarrow> Jwt" where
  "example_jwt decoded header =
     \<lparr>jwt_sign = (\<lambda>payload secret options callback. Inr (JStr ''signed'')),
      jwt_verify = (\<lambda>token secret options callback. Inr decoded),
      jwt_decode = (\<lambda>token. JObj [(''header'', header), (''payload'', decoded)])\<rparr>"

text \<open>A store holding the given records, none of whose calls rejects.\<close>

definition example_store :: "(string \<rightharpoonup> rat) \<Rightarrow> redis" where
  "example_store m = \<lparr>kv = m, fails = (\<lambda>op. False)\<rparr>"

text \<open>No call to the store rejects.\<close>

definition no_faults :: "redis \<Rightarrow> bool" where
  "no_faults st = (\<forall>op. \<not> fails st op)"

text \<open>
  No stored instant is \<open>0\<close>: the instants are clock readings after the epoch. (A stored
  \<open>0\<close> is parsed to the falsy number \<open>0\<close>.)
\<close>

definition instants_nonzero :: "redis \<Rightarrow> bool" where
  "instants_nonzero st = (\<forall>k. kv st k \<noteq> Some 0)"

text \<open>The store without the record under \<open>k\<close>: what a \<^verbatim>\<open>del\<close> that succeeds leaves.\<close>

definition forget :: "redis \<Rightarrow> string \<Rightarrow> redis" where
  "forget st k = st\<lparr>kv := (kv st)(k := None)\<rparr>"

text \<open>Whether a value has an own enumerable property of the given name.\<close>

definition has_own_prop :: "jsval \<Rightarrow> string \<Rightarrow> bool" where
  "has_own_prop v k = (map_of (own_props v) k \<noteq> None)"

text \<open>Stores for the examples whose \<^verbatim>\<open>del\<close> calls, or all of whose calls, reject.\<close>

definition failing_del_store :: "(string \<rightharpoonup> rat) \<Rightarrow> redis" where
  "failing_del_store m =
     \<lparr>kv = m, fails = (\<lambda>op. case op of OpDel k \<Rightarrow> True | _ \<Rightarrow> False)\<rparr>"

definition failing_store :: "(string \<rightharpoonup> rat) \<Rightarrow> redis" where
  "failing_store m = \<lparr>kv = m, fails = (\<lambda>op. True)\<rparr>"

text \<open>
  Records for the examples: of the token \<^verbatim>\<open>tok\<close>, the user \<^verbatim>\<open>ann\<close>, the client \<^verbatim>\<open>web\<close>
  and the pair of both, under the keys the registry derives.
\<close>

definition example_records :: "string \<rightharpoonup> rat" where
  "example_records =
     [''tok'' \<mapsto> 7, ''user::ann'' \<mapsto> 5, ''user::web'' \<mapsto> 6, ''user::ann::client::web'' \<mapsto> 8]"

section \<open>Lookups and the checks of verify\<close>

lemma invalid_after_pos:
  "0 < iat \<Longrightarrow> invalid_after iat v = (case v of Some t \<Rightarrow> iat < t | None \<Rightarrow> False)"
  by (cases v) auto

lemma get_token_newer:
  "0 < iat \<Longrightarrow> invalid_after iat (getTokenInvalidationTime st k) = record_newer st k iat"
  by (simp add: invalid_after_pos getTokenInvalidationTime_def record_newer_def
      split: sum.splits option.splits)

lemma get_user_newer:
  "0 < iat \<Longrightarrow>
   invalid_after iat (getUserInvalidationTime st u) = record_newer st (userInvalidationKey u) iat"
  by (simp add: invalid_after_pos getUserInvalidationTime_def record_newer_def
      split: sum.splits option.splits)

lemma get_user_client_newer:
  "0 < iat \<Longrightarrow>
   invalid_after iat (getUserClientInvalidationTime st u c) =
     record_newer st (userClientInvalidationKey u c) iat"
  by (simp add: invalid_after_pos getUserClientInvalidationTime_def record_newer_def
      split: sum.splits option.splits)

lemma client_key_is_user_key: "clientInvalidationKey c = userInvalidationKey c"
  by (simp add: clientInvalidationKey_def userInvalidationKey_def)

lemma verify_checks_revoked_iff:
  assumes "0 < iat"
  shows "(\<exists>ty t. verify_checks st token u c iat decoded = Inl (InvalidatedTokenError ty t)) \<longleftrightarrow>
     (jwtiParamExists u \<and> jwtiParamExists c \<and> record_newer st (userClientInvalidationKey u c) iat)
     \<or> (jwtiParamExists u \<and> record_newer st (userInvalidationKey u) iat)
     \<or> (jwtiParamExists c \<and> record_newer st (clientInvalidationKey c) iat)
     \<or> record_newer st token iat"
  using assms
  by (simp add: verify_checks_def check_user_client_def check_user_def check_client_def
      check_token_def get_token_newer get_user_newer get_user_client_newer
      client_key_is_user_key Let_def)

lemma verify_checks_valid_iff:
  assumes "0 < iat"
  shows "verify_checks st token u c iat decoded = Inr decoded \<longleftrightarrow>
     \<not> ((jwtiParamExists u \<and> jwtiParamExists c \<and> record_newer st (userClientInvalidationKey u c) iat)
     \<or> (jwtiParamExists u \<and> record_newer st (userInvalidationKey u) iat)
     \<or> (jwtiParamExists c \<and> record_newer st (clientInvalidationKey c) iat)
     \<or> record_newer st token iat)"
  using assms
  by (simp add: verify_checks_def check_user_client_def check_user_def check_client_def
      check_token_def get_token_newer get_user_newer get_user_client_newer
      client_key_is_user_key Let_def)

text \<open>
  A token that verifies, whose header carries a metadata object and whose issuance
  instant is a non-zero number, goes through the four checks.
\<close>

lemma verify_with_metadata:
  assumes "jwt_verify jwt token secret options callback = Inr decoded"
    and "truthy decoded"
    and "get_prop (jwt_decode jwt token) ''header'' = JObj hs"
    and "get_prop (JObj hs) ''jwti'' = JObj ms"
    and "(let i = get_prop (JObj ms) ''iat''
          in if truthy i then i else get_prop decoded ''iat'') = JNum iat"
    and "iat \<noteq> 0"
  shows "verify jwt st token secret options callback =
     verify_checks st token (get_prop (JObj ms) ''user'') (get_prop (JObj ms) ''client'') iat decoded"
proof -
  have t: "truthy (jwt_decode jwt token)"
    using assms(3) by (cases "jwt_decode jwt token") simp_all
  have E: "(if truthy (get_prop (JObj ms) ''iat'') then get_prop (JObj ms) ''iat''
            else get_prop decoded ''iat'') = JNum iat"
    using assms(5) by (simp only: Let_def)
  show ?thesis
  proof (cases "truthy (get_prop (JObj ms) ''iat'')")
    case True
    then have "get_prop (JObj ms) ''iat'' = JNum iat"
      using E by simp
    then show ?thesis
      unfolding verify_def Let_def
      using assms(1-4) t assms(6) by (simp del: get_prop.simps)
  next
    case False
    then have "get_prop decoded ''iat'' = JNum iat"
      using E by simp
    then show ?thesis
      unfolding verify_def Let_def
      using assms(1-4) t assms(6) False by (simp del: get_prop.simps)
  qed
qed

section \<open>The tie rule of verify\<close>

text \<open>
  Claim C1. Take a token that the signing service accepts, whose header carries a
  metadata object, and whose issuance instant (the metadata's \<^verbatim>\<open>iat\<close>, or else the
  payload's own \<^verbatim>\<open>iat\<close>) is a number after the epoch. Then \<^verbatim>\<open>verify\<close> throws the
  revocation error exactly when one of the records it looks up (user+client, user,
  client, token, under the keys the registry derives) has an instant strictly greater
  than the issuance instant; otherwise, in particular when the instants are equal, it
  returns the decoded payload.
\<close>

theorem verify_revoked_iff_record_strictly_newer:
  assumes "jwt_verify jwt token secret options callback = Inr decoded"
    and "truthy decoded"
    and "get_prop (jwt_decode jwt token) ''header'' = JObj hs"
    and "get_prop (JObj hs) ''jwti'' = JObj ms"
    and "(let i = get_prop (JObj ms) ''iat''
          in if truthy i then i else get_prop decoded ''iat'') = JNum iat"
    and "0 < iat"
    and "u = get_prop (JObj ms) ''user''"
    and "c = get_prop (JObj ms) ''client''"
  shows "((\<exists>ty t. verify jwt st token secret options callback = Inl (InvalidatedTokenError ty t)) \<longleftrightarrow>
           (jwtiParamExists u \<and> jwtiParamExists c \<and>
              record_newer st (userClientInvalidationKey u c) iat)
           \<or> (jwtiParamExists u \<and> record_newer st (userInvalidationKey u) iat)
           \<or> (jwtiParamExists c \<and> record_newer st (clientInvalidationKey c) iat)
           \<or> record_newer st token iat)
       \<and> (verify jwt st token secret options callback = Inr decoded \<longleftrightarrow>
           \<not> ((jwtiParamExists u \<and> jwtiParamExists c \<and>
                 record_newer st (userClientInvalidationKey u c) iat)
           \<or> (jwtiParamExists u \<and> record_newer st (userInvalidationKey u) iat)
           \<or> (jwtiParamExists c \<and> record_newer st (clientInvalidationKey c) iat)
           \<or> record_newer st token iat))"
proof -
  have nz: "iat \<noteq> 0"
    using assms(6) by simp
  have "verify jwt st token secret options callback = verify_checks st token u c iat decoded"
    unfolding assms(7,8)
    by (rule verify_with_metadata [OF assms(1-5) nz])
  then show ?thesis
    using verify_checks_revoked_iff [OF assms(6)] verify_checks_valid_iff [OF assms(6)]
    by simp
qed

text \<open>
  The theorem at a token of user \<^verbatim>\<open>ann\<close> issued at instant 100: a user record of
  instant 200 revokes it, a user record of instant 100 does not.
\<close>

theorem verify_revoked_iff_record_strictly_newer_witness:
  "(\<exists>ty t. verify (example_jwt (JStr ''PAYLOAD'')
                 (JObj [(''alg'', JStr ''HS256''),
                        (''jwti'', JObj [(''user'', JStr ''ann''), (''iat'', JNum 100)])]))
             (example_store [''user::ann'' \<mapsto> 200]) ''tok'' (JStr ''SECRET'') JUndefined JUndefined
           = Inl (InvalidatedTokenError ty t))
   \<and> verify (example_jwt (JStr ''PAYLOAD'')
                 (JObj [(''alg'', JStr ''HS256''),
                        (''jwti'', JObj [(''user'', JStr ''ann''), (''iat'', JNum 100)])]))
             (example_store [''user::ann'' \<mapsto> 100]) ''tok'' (JStr ''SECRET'') JUndefined JUndefined
       = Inr (JStr ''PAYLOAD'')"
  using verify_revoked_iff_record_strictly_newer
      [of "example_jwt (JStr ''PAYLOAD'')
                 (JObj [(''alg'', JStr ''HS256''),
                        (''jwti'', JObj [(''user'', JStr ''ann''), (''iat'', JNum 100)])])"
          "''tok''" "JStr ''SECRET''" JUndefined JUndefined "JStr ''PAYLOAD''"
          "[(''alg'', JStr ''HS256''),
            (''jwti'', JObj [(''user'', JStr ''ann''), (''iat'', JNum 100)])]"
          "[(''user'', JStr ''ann''), (''iat'', JNum 100)]" 100 "JStr ''ann''" JUndefined
          "example_store [''user::ann'' \<mapsto> 200]"]
    verify_revoked_iff_record_strictly_newer
      [of "example_jwt (JStr ''PAYLOAD'')
                 (JObj [(''alg'', JStr ''HS256''),
                        (''jwti'', JObj [(''user'', JStr ''ann''), (''iat'', JNum 100)])])"
          "''tok''" "JStr ''SECRET''" JUndefined JUndefined "JStr ''PAYLOAD''"
          "[(''alg'', JStr ''HS256''),
            (''jwti'', JObj [(''user'', JStr ''ann''), (''iat'', JNum 100)])]"
          "[(''user'', JStr ''ann''), (''iat'', JNum 100)]" 100 "JStr ''ann''" JUndefined
          "example_store [''user::ann'' \<mapsto> 100]"]
  by (simp add: example_jwt_def example_store_def jwtiParamExists_def record_newer_def
      redis_get_def userInvalidationKey_def clientInvalidationKey_def identKey_def)

section \<open>Facts about the registry\<close>

lemma forget_absent: "kv st k = None \<Longrightarrow> forget st k = st"
proof -
  assume "kv st k = None"
  then have "(kv st)(k := None) = kv st"
    by (metis fun_upd_triv)
  then show ?thesis
    by (simp add: forget_def)
qed

lemma redis_get_no_faults: "no_faults st \<Longrightarrow> redis_get st k = Inr (kv st k)"
  by (simp add: redis_get_def no_faults_def)

lemma redis_del_no_faults: "no_faults st \<Longrightarrow> redis_del st k = Inr (forget st k)"
  by (simp add: redis_del_def no_faults_def forget_def)

lemma truthy_time_present:
  "instants_nonzero st \<Longrightarrow> truthy_time (kv st k) = (kv st k \<noteq> None)"
  by (cases "kv st k") (auto simp: instants_nonzero_def)

lemma revertToken_no_faults:
  "no_faults st \<Longrightarrow>
   revertTokenInvalidation st token = Inr (kv st token \<noteq> None, forget st token)"
  by (simp add: revertTokenInvalidation_def redis_get_no_faults redis_del_no_faults
      forget_absent split: option.splits)

lemma revertUser_no_faults:
  "no_faults st \<Longrightarrow> instants_nonzero st \<Longrightarrow>
   revertUserInvalidation st u =
     (kv st (userInvalidationKey u) \<noteq> None, forget st (userInvalidationKey u))"
  by (simp add: revertUserInvalidation_def getUserInvalidationTime_def
      removeUserInvalidation_def redis_get_no_faults redis_del_no_faults
      truthy_time_present forget_absent)

lemma revertClient_no_faults:
  "no_faults st \<Longrightarrow> instants_nonzero st \<Longrightarrow>
   revertClientInvalidation st c =
     (kv st (clientInvalidationKey c) \<noteq> None, forget st (clientInvalidationKey c))"
  by (simp add: revertClientInvalidation_def getClientInvalidationTime_def
      removeClientInvalidation_def redis_get_no_faults redis_del_no_faults
      truthy_time_present forget_absent)

lemma revertUserClient_no_faults:
  "no_faults st \<Longrightarrow> instants_nonzero st \<Longrightarrow>
   revertUserClientInvalidation st u c =
     (kv st (userClientInvalidationKey u c) \<noteq> None, forget st (userClientInvalidationKey u c))"
  by (simp add: revertUserClientInvalidation_def getUserClientInvalidationTime_def
      removeUserClientInvalidation_def redis_get_no_faults redis_del_no_faults
      truthy_time_present forget_absent)

text \<open>The dispatch of \<^verbatim>\<open>revert\<close> and of \<^verbatim>\<open>invalidate\<close> on an argument that is not a string.\<close>

lemma revert_dispatch:
  assumes "typeof p \<noteq> TString" and "\<not> nullish p"
  shows "revert st p =
     (let u = get_prop p ''user''; c = get_prop p ''client''
      in if truthy u \<and> truthy c then Inr (revertUserClientInvalidation st u c)
         else if truthy u then Inr (revertUserInvalidation st u)
         else if truthy c then Inr (revertClientInvalidation st c)
         else Inr (False, st))"
  using assms by (cases p) (simp_all add: revert_def)

lemma invalidate_dispatch:
  assumes "typeof p \<noteq> TString" and "\<not> nullish p"
  shows "invalidate date_now st p =
     (let u = get_prop p ''user''; c = get_prop p ''client''
      in if jwtiParamExists u \<and> jwtiParamExists c
           then createUserClientInvalidation date_now st u c
         else if jwtiParamExists u then createUserInvalidation date_now st u
         else if jwtiParamExists c then createClientInvalidation date_now st c
         else Inr st)"
  using assms by (cases p) (simp_all add: invalidate_def)

lemma not_exists_falsy: "\<not> jwtiParamExists v \<Longrightarrow> \<not> truthy v"
  by (cases v) (simp_all add: jwtiParamExists_def)

text \<open>A lookup whose read rejects answers as if there were no record.\<close>

lemma get_token_swallows:
  "getTokenInvalidationTime st token = (if fails st (OpGet token) then None else kv st token)"
  by (simp add: getTokenInvalidationTime_def redis_get_def)

lemma get_user_swallows:
  "getUserInvalidationTime st u =
     (if fails st (OpGet (userInvalidationKey u)) then None else kv st (userInvalidationKey u))"
  by (simp add: getUserInvalidationTime_def redis_get_def)

lemma get_client_swallows:
  "getClientInvalidationTime st c =
     (if fails st (OpGet (clientInvalidationKey c)) then None
      else kv st (clientInvalidationKey c))"
  by (simp add: getClientInvalidationTime_def redis_get_def)

lemma get_user_client_swallows:
  "getUserClientInvalidationTime st u c =
     (if fails st (OpGet (userClientInvalidationKey u c)) then None
      else kv st (userClientInvalidationKey u c))"
  by (simp add: getUserClientInvalidationTime_def redis_get_def)

lemma verify_checks_no_store_error:
  "verify_checks st token u c iat decoded \<noteq> Inl StoreError"
  by (simp add: verify_checks_def check_user_client_def check_user_def check_client_def
      check_token_def Let_def split: option.splits)

text \<open>Writes.\<close>

lemma invalidate_user_ok:
  assumes "jwtiParamExists u" and "\<not> fails st (OpSet (userInvalidationKey u))"
  shows "invalidate date_now st (JObj [(''user'', u)]) =
     Inr (st\<lparr>kv := (kv st)(userInvalidationKey u \<mapsto> of_int date_now / 1000)\<rparr>)"
  using assms
  by (simp add: invalidate_def createUserInvalidation_def redis_set_def jwtiParamExists_def
      invalidationTime_now_def)

lemma invalidate_client_ok:
  assumes "jwtiParamExists c" and "\<not> fails st (OpSet (clientInvalidationKey c))"
  shows "invalidate date_now st (JObj [(''client'', c)]) =
     Inr (st\<lparr>kv := (kv st)(clientInvalidationKey c \<mapsto> of_int date_now / 1000)\<rparr>)"
  using assms
  by (simp add: invalidate_def createClientInvalidation_def redis_set_def jwtiParamExists_def
      invalidationTime_now_def)

lemma invalidate_token_write_fails:
  "fails st (OpSet token) \<Longrightarrow> invalidate date_now st (JStr token) = Inl StoreError"
  by (simp add: invalidate_def createTokenInvalidation_def redis_set_def)

lemma invalidate_user_write_fails:
  "jwtiParamExists u \<Longrightarrow> fails st (OpSet (userInvalidationKey u)) \<Longrightarrow>
   invalidate date_now st (JObj [(''user'', u)]) = Inl StoreError"
  by (simp add: invalidate_def createUserInvalidation_def redis_set_def jwtiParamExists_def)

lemma invalidate_client_write_fails:
  "jwtiParamExists c \<Longrightarrow> fails st (OpSet (clientInvalidationKey c)) \<Longrightarrow>
   invalidate date_now st (JObj [(''client'', c)]) = Inl StoreError"
  by (simp add: invalidate_def createClientInvalidation_def redis_set_def jwtiParamExists_def)

lemma invalidate_user_client_write_fails:
  "jwtiParamExists u \<Longrightarrow> jwtiParamExists c \<Longrightarrow>
   fails st (OpSet (userClientInvalidationKey u c)) \<Longrightarrow>
   invalidate date_now st (JObj [(''user'', u), (''client'', c)]) = Inl StoreError"
  by (simp add: invalidate_def createUserClientInvalidation_def redis_set_def)

text \<open>An invalidation at a clock reading other than \<open>0\<close> keeps the stored instants non-zero.\<close>

lemma redis_set_instants_nonzero:
  "instants_nonzero st \<Longrightarrow> v \<noteq> 0 \<Longrightarrow> redis_set st k v = Inr st' \<Longrightarrow> instants_nonzero st'"
  by (auto simp: redis_set_def instants_nonzero_def split: if_splits)

lemma invalidate_instants_nonzero:
  assumes "instants_nonzero st" and "date_now \<noteq> 0" and "invalidate date_now st p = Inr st'"
  shows "instants_nonzero st'"
proof -
  have v: "invalidationTime_now date_now \<noteq> 0"
    using assms(2) by (simp add: invalidationTime_now_def)
  show ?thesis
  proof (cases "typeof p = TString")
    case True
    then obtain token where "p = JStr token"
      by (cases p) simp_all
    then show ?thesis
      using assms(1,3) v
      by (auto simp: invalidate_def createTokenInvalidation_def
          intro: redis_set_instants_nonzero)
  next
    case False
    then have "\<not> nullish p"
      using assms(3) by (cases p) (simp_all add: invalidate_def)
    then show ?thesis
      using assms(1,3) v False
      by (auto simp: invalidate_dispatch Let_def createUserClientInvalidation_def
          createUserInvalidation_def createClientInvalidation_def
          split: if_splits intro: redis_set_instants_nonzero)
  qed
qed

section \<open>The key of a client invalidation\<close>

text \<open>
  Claim C2 says that the key of a client invalidation is \<^verbatim>\<open>client::\<close> followed by the
  canonical form of the client, disjoint from the keys of user invalidations. The code
  writes \<^verbatim>\<open>user::\<close> in all three client helpers, and \<^verbatim>\<open>verify\<close> looks the client up with
  \<^verbatim>\<open>getUserInvalidationTime\<close>: invalidating a client writes the record under
  \<^verbatim>\<open>user::\<close> followed by the client's key, which is the key of the user with the same
  identifier, and the client lookup reads what the user lookup reads.
\<close>

theorem client_invalidation_uses_user_prefix:
  assumes "jwtiParamExists c" and "\<not> fails st (OpSet (''user::'' @ identKey c))"
  shows "invalidate date_now st (JObj [(''client'', c)]) =
           Inr (st\<lparr>kv := (kv st)(''user::'' @ identKey c \<mapsto> of_int date_now / 1000)\<rparr>)
       \<and> getClientInvalidationTime st c = getUserInvalidationTime st c
       \<and> clientInvalidationKey c = userInvalidationKey c"
  using assms invalidate_client_ok [of c st date_now]
  by (simp add: clientInvalidationKey_def userInvalidationKey_def
      getClientInvalidationTime_def getUserInvalidationTime_def)

text \<open>
  Invalidating the client \<^verbatim>\<open>web\<close> at clock reading 5000 writes \<^verbatim>\<open>user::web\<close> and no
  \<^verbatim>\<open>client::web\<close>; a token of the user \<^verbatim>\<open>web\<close> issued at instant 1 is then revoked
  with type \<^verbatim>\<open>user\<close>.
\<close>

theorem client_invalidation_uses_user_prefix_witness:
  "invalidate 5000 (example_store Map.empty) (JObj [(''client'', JStr ''web'')]) =
     Inr (example_store [''user::web'' \<mapsto> 5])
   \<and> kv (example_store [''user::web'' \<mapsto> 5]) ''client::web'' = None
   \<and> verify (example_jwt (JStr ''PAYLOAD'')
               (JObj [(''jwti'', JObj [(''user'', JStr ''web''), (''iat'', JNum 1)])]))
        (example_store [''user::web'' \<mapsto> 5]) ''tok'' (JStr ''SECRET'') JUndefined JUndefined =
       Inl (InvalidatedTokenError TYPE_USER 5)"
  using client_invalidation_uses_user_prefix [of "JStr ''web''" "example_store Map.empty" 5000]
  by (simp add: example_store_def example_jwt_def jwtiParamExists_def identKey_def
      verify_def verify_checks_def check_user_client_def check_user_def
      getUserInvalidationTime_def redis_get_def userInvalidationKey_def Let_def)

section \<open>When verify looks the token record up\<close>

text \<open>
  Claim C3 says that a token whose metadata carries a user or a client is never revoked
  by a token record. The checks of \<^verbatim>\<open>verify\<close> are consecutive \<^verbatim>\<open>if\<close> statements and the
  token check is the last of them, whatever the metadata holds: a token of the user
  \<^verbatim>\<open>ann\<close> issued at instant 100 is revoked, with type \<^verbatim>\<open>token\<close>, by a token record of
  instant 200.
\<close>

theorem token_record_revokes_token_with_user:
  "verify (example_jwt (JStr ''PAYLOAD'')
               (JObj [(''jwti'', JObj [(''user'', JStr ''ann''), (''iat'', JNum 100)])]))
        (example_store [''tok'' \<mapsto> 200]) ''tok'' (JStr ''SECRET'') JUndefined JUndefined =
       Inl (InvalidatedTokenError TYPE_TOKEN 200)"
  by (simp add: example_store_def example_jwt_def jwtiParamExists_def identKey_def
      verify_def verify_checks_def check_user_client_def check_user_def check_client_def
      check_token_def getUserInvalidationTime_def getTokenInvalidationTime_def
      redis_get_def userInvalidationKey_def Let_def)

text \<open>
  Claim C3, amended. For every token with a metadata object and an issuance instant
  after the epoch, with or without a user and a client: when no user+client, user or
  client record is strictly newer than the issuance instant, \<^verbatim>\<open>verify\<close> looks the token
  record up, throws the revocation error of type \<^verbatim>\<open>token\<close> with the record's instant
  when that record is strictly newer, and returns the payload otherwise.
\<close>

theorem token_check_follows_scoped_checks:
  assumes "jwt_verify jwt token secret options callback = Inr decoded"
    and "truthy decoded"
    and "get_prop (jwt_decode jwt token) ''header'' = JObj hs"
    and "get_prop (JObj hs) ''jwti'' = JObj ms"
    and "(let i = get_prop (JObj ms) ''iat''
          in if truthy i then i else get_prop decoded ''iat'') = JNum iat"
    and "0 < iat"
    and "u = get_prop (JObj ms) ''user''"
    and "c = get_prop (JObj ms) ''client''"
    and "\<not> (jwtiParamExists u \<and> jwtiParamExists c \<and>
            record_newer st (userClientInvalidationKey u c) iat)"
    and "\<not> (jwtiParamExists u \<and> record_newer st (userInvalidationKey u) iat)"
    and "\<not> (jwtiParamExists c \<and> record_newer st (clientInvalidationKey c) iat)"
  shows "verify jwt st token secret options callback =
     (if record_newer st token iat
      then Inl (InvalidatedTokenError TYPE_TOKEN (Number_time (getTokenInvalidationTime st token)))
      else Inr decoded)"
proof -
  have nz: "iat \<noteq> 0"
    using assms(6) by simp
  have "verify jwt st token secret options callback = verify_checks st token u c iat decoded"
    unfolding assms(7,8)
    by (rule verify_with_metadata [OF assms(1-5) nz])
  then show ?thesis
    using assms(6,9,10,11)
    by (auto simp add: verify_checks_def check_user_client_def check_user_def check_client_def
      check_token_def get_token_newer get_user_newer get_user_client_newer
      client_key_is_user_key Let_def)
qed

text \<open>
  The amended claim at a token of user \<^verbatim>\<open>ann\<close> and client \<^verbatim>\<open>web\<close> issued at instant
  100, with a user record that is not newer and a token record of instant 200.
\<close>

theorem token_check_follows_scoped_checks_witness:
  "verify (example_jwt (JStr ''PAYLOAD'')
             (JObj [(''jwti'', JObj [(''user'', JStr ''ann''), (''client'', JStr ''web''),
                                     (''iat'', JNum 100)])]))
      (example_store [''user::ann'' \<mapsto> 50, ''tok'' \<mapsto> 200]) ''tok'' (JStr ''SECRET'')
      JUndefined JUndefined =
     Inl (InvalidatedTokenError TYPE_TOKEN 200)"
  using token_check_follows_scoped_checks
    [of "example_jwt (JStr ''PAYLOAD'')
             (JObj [(''jwti'', JObj [(''user'', JStr ''ann''), (''client'', JStr ''web''),
                                     (''iat'', JNum 100)])])"
        "''tok''" "JStr ''SECRET''" JUndefined JUndefined "JStr ''PAYLOAD''"
        "[(''jwti'', JObj [(''user'', JStr ''ann''), (''client'', JStr ''web''),
                           (''iat'', JNum 100)])]"
        "[(''user'', JStr ''ann''), (''client'', JStr ''web''), (''iat'', JNum 100)]"
        100 "JStr ''ann''" "JStr ''web''"
        "example_store [''user::ann'' \<mapsto> 50, ''tok'' \<mapsto> 200]"]
  by (simp add: example_jwt_def example_store_def record_newer_def redis_get_def
      userInvalidationKey_def clientInvalidationKey_def userClientInvalidationKey_def
      identKey_def getTokenInvalidationTime_def)

section \<open>A token without metadata\<close>

lemma get_prop_empty: "get_prop (JObj []) k = JUndefined"
  by simp

text \<open>\<^verbatim>\<open>header.jwti || {}\<close> is truthy whatever the header holds.\<close>

lemma jwtiHeader_truthy:
  "truthy (let j = get_prop header ''jwti'' in if truthy j then j else JObj [])"
  by (simp add: Let_def)

text \<open>
  A token without metadata whose payload has a numeric \<^verbatim>\<open>iat\<close> goes through the
  ordinary checks with no user and no client: the token record revokes it when it is
  strictly newer than \<^verbatim>\<open>iat\<close>.
\<close>

lemma verify_without_metadata_native_instant:
  assumes "jwt_verify jwt token secret options callback = Inr decoded"
    and "truthy decoded"
    and "get_prop (jwt_decode jwt token) ''header'' = JObj hs"
    and "\<not> truthy (get_prop (JObj hs) ''jwti'')"
    and "get_prop decoded ''iat'' = JNum iat" and "iat \<noteq> 0"
  shows "verify jwt st token secret options callback =
     verify_checks st token JUndefined JUndefined iat decoded"
proof -
  have t: "truthy (jwt_decode jwt token)"
    using assms(3) by (cases "jwt_decode jwt token") simp_all
  show ?thesis
    unfolding verify_def Let_def
    using assms t by (simp del: get_prop.simps add: get_prop_empty)
qed

text \<open>
  Claim C4 says that for a token without metadata and without a comparable issuance
  instant, a token record is enough for \<^verbatim>\<open>verify\<close> to throw. The branch written for it
  tests \<^verbatim>\<open>!jwtiHeader\<close> after \<^verbatim>\<open>jwtiHeader = header.jwti || {}\<close>, and an empty object is
  truthy: the branch is never taken. Such a token leaves \<^verbatim>\<open>verify\<close> at
  \<^verbatim>\<open>if (!iat || typeof iat !== 'number') return decoded\<close>, whatever the store holds.
\<close>

theorem verify_without_metadata_or_instant_returns_payload:
  assumes "jwt_verify jwt token secret options callback = Inr decoded"
    and "truthy decoded"
    and "get_prop (jwt_decode jwt token) ''header'' = JObj hs"
    and "\<not> truthy (get_prop (JObj hs) ''jwti'')"
    and "typeof (get_prop decoded ''iat'') \<noteq> TNumber"
  shows "verify jwt st token secret options callback = Inr decoded"
proof -
  have t: "truthy (jwt_decode jwt token)"
    using assms(3) by (cases "jwt_decode jwt token") simp_all
  show ?thesis
    unfolding verify_def Let_def
    using assms t by (simp del: get_prop.simps add: get_prop_empty)
qed

text \<open>
  A token signed outside the library with a string payload, and a token record of
  instant 5: \<^verbatim>\<open>verify\<close> returns the payload, although the lookup finds the record and
  the branch written for this case would have thrown.
\<close>

theorem verify_without_metadata_or_instant_returns_payload_witness:
  "verify (example_jwt (JStr ''PAYLOAD'') (JObj [(''alg'', JStr ''HS256'')]))
      (example_store [''tok'' \<mapsto> 5]) ''tok'' (JStr ''SECRET'') JUndefined JUndefined =
     Inr (JStr ''PAYLOAD'')
   \<and> getTokenInvalidationTime (example_store [''tok'' \<mapsto> 5]) ''tok'' = Some 5
   \<and> verify_no_header (example_store [''tok'' \<mapsto> 5]) ''tok'' JUndefined (JStr ''PAYLOAD'') =
       Inl (InvalidatedTokenError TYPE_TOKEN 5)"
  using verify_without_metadata_or_instant_returns_payload
    [of "example_jwt (JStr ''PAYLOAD'') (JObj [(''alg'', JStr ''HS256'')])" "''tok''"
        "JStr ''SECRET''" JUndefined JUndefined "JStr ''PAYLOAD''" "[(''alg'', JStr ''HS256'')]"
        "example_store [''tok'' \<mapsto> 5]"]
  by (simp add: example_jwt_def example_store_def getTokenInvalidationTime_def redis_get_def
      verify_no_header_def)

section \<open>invalidate followed by revert\<close>

lemma identKey_zero: "identKey (JNum 0) = ''0''"
  by code_simp

lemma truthy_exists: "truthy v \<Longrightarrow> jwtiParamExists v"
  by (cases v) (simp_all add: jwtiParamExists_def)

text \<open>
  For a token string and for a truthy user, on a store whose calls do not reject and
  with a clock that does not read \<open>0\<close>, \<^verbatim>\<open>revert\<close> right after \<^verbatim>\<open>invalidate\<close> returns
  true and leaves no record.
\<close>

lemma invalidate_then_revert_token:
  assumes "no_faults st" and "instants_nonzero st" and "date_now \<noteq> 0"
  shows "\<exists>st'. invalidate date_now st (JStr token) = Inr st'
      \<and> revert st' (JStr token) = Inr (True, forget st' token)
      \<and> kv (forget st' token) token = None"
proof -
  let ?st' = "st\<lparr>kv := (kv st)(token \<mapsto> of_int date_now / 1000)\<rparr>"
  have i: "invalidate date_now st (JStr token) = Inr ?st'"
    using assms(1)
    by (simp add: invalidate_def createTokenInvalidation_def redis_set_def no_faults_def
        invalidationTime_now_def)
  have nf: "no_faults ?st'"
    using assms(1) by (simp add: no_faults_def)
  have "revert ?st' (JStr token) = Inr (True, forget ?st' token)"
    by (simp add: revert_def revertToken_no_faults [OF nf])
  then show ?thesis
    using i by (simp add: forget_def)
qed

lemma invalidate_then_revert_truthy_user:
  assumes "no_faults st" and "instants_nonzero st" and "date_now \<noteq> 0" and "truthy u"
  shows "\<exists>st'. invalidate date_now st (JObj [(''user'', u)]) = Inr st'
      \<and> revert st' (JObj [(''user'', u)]) = Inr (True, forget st' (userInvalidationKey u))
      \<and> kv (forget st' (userInvalidationKey u)) (userInvalidationKey u) = None"
proof -
  let ?st' = "st\<lparr>kv := (kv st)(userInvalidationKey u \<mapsto> of_int date_now / 1000)\<rparr>"
  have i: "invalidate date_now st (JObj [(''user'', u)]) = Inr ?st'"
    using assms(1,4) by (simp add: invalidate_user_ok truthy_exists no_faults_def)
  have nf: "no_faults ?st'"
    using assms(1) by (simp add: no_faults_def)
  have nz: "instants_nonzero ?st'"
    by (rule invalidate_instants_nonzero [OF assms(2,3) i])
  have "revert ?st' (JObj [(''user'', u)]) = Inr (revertUserInvalidation ?st' u)"
    using assms(4) by (simp add: revert_def)
  then have "revert ?st' (JObj [(''user'', u)]) = Inr (True, forget ?st' (userInvalidationKey u))"
    by (simp add: revertUser_no_faults [OF nf nz])
  then show ?thesis
    using i by (simp add: forget_def)
qed

text \<open>
  Claim C5 says that \<^verbatim>\<open>invalidate\<close> followed by \<^verbatim>\<open>revert\<close> for the same identity returns
  true, for every identity. \<^verbatim>\<open>invalidate\<close> tests its parameters with
  \<^verbatim>\<open>jwtiParamExists\<close>, \<^verbatim>\<open>revert\<close> tests them for truthiness: for an identifier that
  exists and is falsy (the number \<open>0\<close>, the empty string) \<^verbatim>\<open>invalidate\<close> writes the
  record, and \<^verbatim>\<open>revert\<close> returns false on any store and leaves it as it is.
\<close>

theorem revert_skips_falsy_identifier:
  assumes "jwtiParamExists u" and "\<not> truthy u"
    and "\<not> fails st (OpSet (userInvalidationKey u))"
  shows "invalidate date_now st (JObj [(''user'', u)]) =
           Inr (st\<lparr>kv := (kv st)(userInvalidationKey u \<mapsto> of_int date_now / 1000)\<rparr>)
       \<and> revert st' (JObj [(''user'', u)]) = Inr (False, st')"
  using assms invalidate_user_ok [of u st date_now]
  by (simp add: revert_def)

text \<open>
  The user \<open>0\<close>: invalidated at clock reading 5000 and reverted at once, the record
  \<^verbatim>\<open>user::0\<close> is still there, and a token of user \<open>0\<close> issued at instant 1 is still
  revoked.
\<close>

theorem revert_skips_falsy_identifier_witness:
  "invalidate 5000 (example_store Map.empty) (JObj [(''user'', JNum 0)]) =
     Inr (example_store [''user::0'' \<mapsto> 5])
   \<and> revert (example_store [''user::0'' \<mapsto> 5]) (JObj [(''user'', JNum 0)]) =
       Inr (False, example_store [''user::0'' \<mapsto> 5])
   \<and> verify (example_jwt (JStr ''PAYLOAD'')
               (JObj [(''jwti'', JObj [(''user'', JNum 0), (''iat'', JNum 1)])]))
        (example_store [''user::0'' \<mapsto> 5]) ''tok'' (JStr ''SECRET'') JUndefined JUndefined =
       Inl (InvalidatedTokenError TYPE_USER 5)"
  using revert_skips_falsy_identifier
    [of "JNum 0" "example_store Map.empty" 5000 "example_store [''user::0'' \<mapsto> 5]"]
  by (simp add: example_store_def example_jwt_def jwtiParamExists_def identKey_zero
      verify_def verify_checks_def check_user_client_def check_user_def
      getUserInvalidationTime_def redis_get_def userInvalidationKey_def Let_def)

section \<open>revert looks up, then removes\<close>

text \<open>
  Claim C6. On a store whose calls do not reject and whose instants are clock readings
  (not \<open>0\<close>), each of the four \<^verbatim>\<open>revert...Invalidation\<close> helpers returns whether the
  record of the identity is there, under the key the registry derives for it, and
  leaves the store without that record; when the record is not there, the store without
  it is the store itself. \<^verbatim>\<open>revert\<close> hands a token string to the token helper, and a
  parameter object to the user+client helper when both parameters are truthy, or to the
  helper of the one that is.
\<close>

theorem revert_looks_up_then_removes:
  assumes "no_faults st" and "instants_nonzero st"
  shows "revertTokenInvalidation st token = Inr (kv st token \<noteq> None, forget st token)
    \<and> revertUserInvalidation st u =
         (kv st (userInvalidationKey u) \<noteq> None, forget st (userInvalidationKey u))
    \<and> revertClientInvalidation st c =
         (kv st (clientInvalidationKey c) \<noteq> None, forget st (clientInvalidationKey c))
    \<and> revertUserClientInvalidation st u c =
         (kv st (userClientInvalidationKey u c) \<noteq> None,
          forget st (userClientInvalidationKey u c))
    \<and> (kv st k = None \<longrightarrow> forget st k = st)
    \<and> revert st (JStr token) = revertTokenInvalidation st token
    \<and> (truthy u \<and> truthy c \<longrightarrow>
         revert st (JObj [(''user'', u), (''client'', c)]) =
           Inr (revertUserClientInvalidation st u c))
    \<and> (truthy u \<longrightarrow> revert st (JObj [(''user'', u)]) = Inr (revertUserInvalidation st u))
    \<and> (truthy c \<longrightarrow> revert st (JObj [(''client'', c)]) = Inr (revertClientInvalidation st c))"
proof -
  have helpers:
    "revertTokenInvalidation st token = Inr (kv st token \<noteq> None, forget st token)"
    "revertUserInvalidation st u =
       (kv st (userInvalidationKey u) \<noteq> None, forget st (userInvalidationKey u))"
    "revertClientInvalidation st c =
       (kv st (clientInvalidationKey c) \<noteq> None, forget st (clientInvalidationKey c))"
    "revertUserClientInvalidation st u c =
       (kv st (userClientInvalidationKey u c) \<noteq> None,
        forget st (userClientInvalidationKey u c))"
    using assms
    by (simp_all add: revertToken_no_faults revertUser_no_faults revertClient_no_faults
        revertUserClient_no_faults)
  have absent: "kv st k = None \<longrightarrow> forget st k = st"
    by (simp add: forget_absent)
  have dispatch:
    "revert st (JStr token) = revertTokenInvalidation st token"
    "truthy u \<and> truthy c \<longrightarrow>
       revert st (JObj [(''user'', u), (''client'', c)]) =
         Inr (revertUserClientInvalidation st u c)"
    "truthy u \<longrightarrow> revert st (JObj [(''user'', u)]) = Inr (revertUserInvalidation st u)"
    "truthy c \<longrightarrow> revert st (JObj [(''client'', c)]) = Inr (revertClientInvalidation st c)"
    by (simp_all add: revert_def)
  show ?thesis
    using helpers absent dispatch by (intro conjI)
qed

text \<open>
  The claim on a store with a record for a token, a user, a client and their pair: each
  \<^verbatim>\<open>revert\<close> returns true and leaves the store without the record; for the user
  \<^verbatim>\<open>bob\<close>, who has no record, it returns false and the store is unchanged.
\<close>

theorem revert_looks_up_then_removes_witness:
  "revert (example_store example_records) (JStr ''tok'') =
     Inr (True, forget (example_store example_records) ''tok'')
   \<and> revert (example_store example_records)
        (JObj [(''user'', JStr ''ann''), (''client'', JStr ''web'')]) =
       Inr (True, forget (example_store example_records) ''user::ann::client::web'')
   \<and> revert (example_store example_records) (JObj [(''user'', JStr ''ann'')]) =
       Inr (True, forget (example_store example_records) ''user::ann'')
   \<and> revert (example_store example_records) (JObj [(''client'', JStr ''web'')]) =
       Inr (True, forget (example_store example_records) ''user::web'')
   \<and> revert (example_store example_records) (JObj [(''user'', JStr ''bob'')]) =
       Inr (False, example_store example_records)
   \<and> kv (forget (example_store example_records) ''user::ann'') ''user::ann'' = None"
proof -
  have nf: "no_faults (example_store example_records)"
    by (simp add: no_faults_def example_store_def)
  have nz: "instants_nonzero (example_store example_records)"
    by (auto simp add: instants_nonzero_def example_store_def example_records_def)
  note r = revert_looks_up_then_removes [OF nf nz]
  have absent: "kv (forget (example_store example_records) ''user::ann'') ''user::ann'' = None"
    by (simp add: forget_def)
  show ?thesis
    using r [where token = "''tok''" and u = "JStr ''ann''" and c = "JStr ''web''"
               and k = "''tok''"]
      r [where token = "''tok''" and u = "JStr ''bob''" and c = "JStr ''web''"
           and k = "''user::bob''"]
      absent
    by (simp add: example_store_def example_records_def
        userInvalidationKey_def clientInvalidationKey_def userClientInvalidationKey_def
        identKey_def)
qed

section \<open>Store errors\<close>

lemma revert_token_get_fails:
  "fails st (OpGet token) \<Longrightarrow> revert st (JStr token) = Inl StoreError"
  by (simp add: revert_def revertTokenInvalidation_def redis_get_def)

lemma revert_token_del_fails:
  "\<not> fails st (OpGet token) \<Longrightarrow> kv st token \<noteq> None \<Longrightarrow> fails st (OpDel token) \<Longrightarrow>
   revert st (JStr token) = Inl StoreError"
  by (auto simp add: revert_def revertTokenInvalidation_def redis_get_def redis_del_def)

lemma revert_user_del_fails:
  "truthy u \<Longrightarrow> \<not> fails st (OpGet (userInvalidationKey u)) \<Longrightarrow>
   truthy_time (kv st (userInvalidationKey u)) \<Longrightarrow>
   fails st (OpDel (userInvalidationKey u)) \<Longrightarrow>
   revert st (JObj [(''user'', u)]) = Inr (True, st)"
  by (simp add: revert_def revertUserInvalidation_def get_user_swallows
      removeUserInvalidation_def redis_del_def)

lemma revert_client_del_fails:
  "truthy c \<Longrightarrow> \<not> fails st (OpGet (clientInvalidationKey c)) \<Longrightarrow>
   truthy_time (kv st (clientInvalidationKey c)) \<Longrightarrow>
   fails st (OpDel (clientInvalidationKey c)) \<Longrightarrow>
   revert st (JObj [(''client'', c)]) = Inr (True, st)"
  by (simp add: revert_def revertClientInvalidation_def get_client_swallows
      removeClientInvalidation_def redis_del_def)

lemma revert_user_client_del_fails:
  "truthy u \<Longrightarrow> truthy c \<Longrightarrow> \<not> fails st (OpGet (userClientInvalidationKey u c)) \<Longrightarrow>
   truthy_time (kv st (userClientInvalidationKey u c)) \<Longrightarrow>
   fails st (OpDel (userClientInvalidationKey u c)) \<Longrightarrow>
   revert st (JObj [(''user'', u), (''client'', c)]) = Inr (True, st)"
  by (simp add: revert_def revertUserClientInvalidation_def get_user_client_swallows
      removeUserClientInvalidation_def redis_del_def)

text \<open>
  Claim C7 says that a store error raised while \<^verbatim>\<open>revert\<close> removes a record reaches the
  caller. \<^verbatim>\<open>removeUserInvalidation\<close> wraps its \<^verbatim>\<open>del\<close> in \<^verbatim>\<open>try\<close>/\<^verbatim>\<open>catch\<close> and logs:
  on a store whose \<^verbatim>\<open>del\<close> rejects, reverting the user \<^verbatim>\<open>ann\<close> returns true, no error
  is raised and the record stays.
\<close>

theorem revert_user_swallows_failed_delete:
  "revert (failing_del_store [''user::ann'' \<mapsto> 5]) (JObj [(''user'', JStr ''ann'')])
     = Inr (True, failing_del_store [''user::ann'' \<mapsto> 5])
   \<and> redis_del (failing_del_store [''user::ann'' \<mapsto> 5]) ''user::ann'' = Inl StoreError"
  by (simp add: revert_def revertUserInvalidation_def getUserInvalidationTime_def
      removeUserInvalidation_def redis_get_def redis_del_def failing_del_store_def
      userInvalidationKey_def identKey_def)

text \<open>
  Claim C7, amended. A store error in one of the four \<^verbatim>\<open>get...InvalidationTime\<close> lookups
  (the ones \<^verbatim>\<open>verify\<close> and the scoped reverts use) does not reach the caller: the lookup
  answers as if there were no record, and the checks of \<^verbatim>\<open>verify\<close> never raise a store
  error. A store error in the write of \<^verbatim>\<open>invalidate\<close> reaches the caller, for all four
  scopes. In \<^verbatim>\<open>revert\<close>, a token string is read and deleted without a \<^verbatim>\<open>try\<close>, so a
  store error in either call reaches the caller; the removals of the user, client and
  user+client scopes catch the error, and \<^verbatim>\<open>revert\<close> returns true with the record left
  in place.
\<close>

theorem store_errors_where_they_propagate:
  "getTokenInvalidationTime st token = (if fails st (OpGet token) then None else kv st token)
   \<and> getUserInvalidationTime st u =
       (if fails st (OpGet (userInvalidationKey u)) then None else kv st (userInvalidationKey u))
   \<and> getClientInvalidationTime st c =
       (if fails st (OpGet (clientInvalidationKey c)) then None
        else kv st (clientInvalidationKey c))
   \<and> getUserClientInvalidationTime st u c =
       (if fails st (OpGet (userClientInvalidationKey u c)) then None
        else kv st (userClientInvalidationKey u c))
   \<and> verify_checks st token u c iat decoded \<noteq> Inl StoreError
   \<and> (fails st (OpSet token) \<longrightarrow> invalidate date_now st (JStr token) = Inl StoreError)
   \<and> (jwtiParamExists u \<and> fails st (OpSet (userInvalidationKey u)) \<longrightarrow>
        invalidate date_now st (JObj [(''user'', u)]) = Inl StoreError)
   \<and> (jwtiParamExists c \<and> fails st (OpSet (clientInvalidationKey c)) \<longrightarrow>
        invalidate date_now st (JObj [(''client'', c)]) = Inl StoreError)
   \<and> (jwtiParamExists u \<and> jwtiParamExists c \<and>
       fails st (OpSet (userClientInvalidationKey u c)) \<longrightarrow>
        invalidate date_now st (JObj [(''user'', u), (''client'', c)]) = Inl StoreError)
   \<and> (fails st (OpGet token) \<longrightarrow> revert st (JStr token) = Inl StoreError)
   \<and> (\<not> fails st (OpGet token) \<and> kv st token \<noteq> None \<and> fails st (OpDel token) \<longrightarrow>
        revert st (JStr token) = Inl StoreError)
   \<and> (truthy u \<and> \<not> fails st (OpGet (userInvalidationKey u)) \<and>
       truthy_time (kv st (userInvalidationKey u)) \<and>
       fails st (OpDel (userInvalidationKey u)) \<longrightarrow>
        revert st (JObj [(''user'', u)]) = Inr (True, st))
   \<and> (truthy c \<and> \<not> fails st (OpGet (clientInvalidationKey c)) \<and>
       truthy_time (kv st (clientInvalidationKey c)) \<and>
       fails st (OpDel (clientInvalidationKey c)) \<longrightarrow>
        revert st (JObj [(''client'', c)]) = Inr (True, st))
   \<and> (truthy u \<and> truthy c \<and> \<not> fails st (OpGet (userClientInvalidationKey u c)) \<and>
       truthy_time (kv st (userClientInvalidationKey u c)) \<and>
       fails st (OpDel (userClientInvalidationKey u c)) \<longrightarrow>
        revert st (JObj [(''user'', u), (''client'', c)]) = Inr (True, st))"
proof (intro conjI impI)
  show "getTokenInvalidationTime st token =
      (if fails st (OpGet token) then None else kv st token)"
    by (rule get_token_swallows)
  show "getUserInvalidationTime st u =
      (if fails st (OpGet (userInvalidationKey u)) then None else kv st (userInvalidationKey u))"
    by (rule get_user_swallows)
  show "getClientInvalidationTime st c =
      (if fails st (OpGet (clientInvalidationKey c)) then None
       else kv st (clientInvalidationKey c))"
    by (rule get_client_swallows)
  show "getUserClientInvalidationTime st u c =
      (if fails st (OpGet (userClientInvalidationKey u c)) then None
       else kv st (userClientInvalidationKey u c))"
    by (rule get_user_client_swallows)
  show "verify_checks st token u c iat decoded \<noteq> Inl StoreError"
    by (rule verify_checks_no_store_error)
qed (simp_all add: invalidate_token_write_fails invalidate_user_write_fails
    invalidate_client_write_fails invalidate_user_client_write_fails
    revert_token_get_fails revert_token_del_fails revert_user_del_fails
    revert_client_del_fails revert_user_client_del_fails)

text \<open>
  The amended claim on a store all of whose calls reject, and on one whose \<^verbatim>\<open>del\<close>
  calls reject.
\<close>

theorem store_errors_where_they_propagate_witness:
  "getUserInvalidationTime (failing_store example_records) (JStr ''ann'') = None
   \<and> invalidate 5000 (failing_store example_records) (JStr ''tok'') = Inl StoreError
   \<and> invalidate 5000 (failing_store example_records) (JObj [(''user'', JStr ''ann'')]) =
       Inl StoreError
   \<and> invalidate 5000 (failing_store example_records) (JObj [(''client'', JStr ''web'')]) =
       Inl StoreError
   \<and> invalidate 5000 (failing_store example_records)
        (JObj [(''user'', JStr ''ann''), (''client'', JStr ''web'')]) = Inl StoreError
   \<and> revert (failing_store example_records) (JStr ''tok'') = Inl StoreError
   \<and> revert (failing_del_store example_records) (JStr ''tok'') = Inl StoreError
   \<and> revert (failing_del_store example_records) (JObj [(''user'', JStr ''ann'')]) =
       Inr (True, failing_del_store example_records)
   \<and> revert (failing_del_store example_records) (JObj [(''client'', JStr ''web'')]) =
       Inr (True, failing_del_store example_records)
   \<and> revert (failing_del_store example_records)
        (JObj [(''user'', JStr ''ann''), (''client'', JStr ''web'')]) =
       Inr (True, failing_del_store example_records)"
  using store_errors_where_they_propagate
      [where st = "failing_store example_records" and token = "''tok''"
         and u = "JStr ''ann''" and c = "JStr ''web''" and date_now = 5000]
    store_errors_where_they_propagate
      [where st = "failing_del_store example_records" and token = "''tok''"
         and u = "JStr ''ann''" and c = "JStr ''web''" and date_now = 5000]
  by (simp add: failing_store_def failing_del_store_def example_records_def
      jwtiParamExists_def userInvalidationKey_def clientInvalidationKey_def
      userClientInvalidationKey_def identKey_def)

section \<open>The key of a structured identifier\<close>

lemma reordered_keys_differ:
  "userInvalidationKey (JObj [(''a'', JNum 1), (''b'', JNum 2)])
     \<noteq> userInvalidationKey (JObj [(''b'', JNum 2), (''a'', JNum 1)])"
  by code_simp

lemma check_user_newer:
  assumes "jwtiParamExists u" and "\<not> fails st (OpGet (userInvalidationKey u))"
    and "kv st (userInvalidationKey u) = Some t" and "0 < iat" and "iat < t"
  shows "check_user st u iat = Some (InvalidatedTokenError TYPE_USER t)"
  using assms by (simp add: check_user_def get_user_swallows)

text \<open>
  Claim C8 says that two objects with the same key/value pairs map to the same store
  key whatever the order of their fields. The key is \<^verbatim>\<open>JSON.stringify\<close> of the object,
  which writes the fields in the order the object enumerates them: \<^verbatim>\<open>{a: 1, b: 2}\<close> and
  \<^verbatim>\<open>{b: 2, a: 1}\<close> get different keys, and a token signed for the second, issued at
  instant 1, still verifies after the first was invalidated at clock reading 5000.
\<close>

theorem reordered_fields_give_different_keys:
  "userInvalidationKey (JObj [(''a'', JNum 1), (''b'', JNum 2)])
     \<noteq> userInvalidationKey (JObj [(''b'', JNum 2), (''a'', JNum 1)])
   \<and> invalidate 5000 (example_store Map.empty)
        (JObj [(''user'', JObj [(''a'', JNum 1), (''b'', JNum 2)])]) =
       Inr (example_store [userInvalidationKey (JObj [(''a'', JNum 1), (''b'', JNum 2)]) \<mapsto> 5])
   \<and> verify (example_jwt (JStr ''PAYLOAD'')
               (JObj [(''jwti'', JObj [(''user'', JObj [(''b'', JNum 2), (''a'', JNum 1)]),
                                       (''iat'', JNum 1)])]))
        (example_store [userInvalidationKey (JObj [(''a'', JNum 1), (''b'', JNum 2)]) \<mapsto> 5])
        ''tok'' (JStr ''SECRET'') JUndefined JUndefined =
       Inr (JStr ''PAYLOAD'')"
proof -
  have d: "userInvalidationKey (JObj [(''b'', JNum 2), (''a'', JNum 1)])
      \<noteq> userInvalidationKey (JObj [(''a'', JNum 1), (''b'', JNum 2)])"
    using reordered_keys_differ by simp
  have t: "''tok'' \<noteq> userInvalidationKey (JObj [(''a'', JNum 1), (''b'', JNum 2)])"
    by (simp add: userInvalidationKey_def)
  have i: "invalidate 5000 (example_store Map.empty)
        (JObj [(''user'', JObj [(''a'', JNum 1), (''b'', JNum 2)])]) =
       Inr (example_store [userInvalidationKey (JObj [(''a'', JNum 1), (''b'', JNum 2)]) \<mapsto> 5])"
    by (simp add: invalidate_def jwtiParamExists_def createUserInvalidation_def redis_set_def
        invalidationTime_now_def example_store_def)
  have v: "verify (example_jwt (JStr ''PAYLOAD'')
               (JObj [(''jwti'', JObj [(''user'', JObj [(''b'', JNum 2), (''a'', JNum 1)]),
                                       (''iat'', JNum 1)])]))
        (example_store [userInvalidationKey (JObj [(''a'', JNum 1), (''b'', JNum 2)]) \<mapsto> 5])
        ''tok'' (JStr ''SECRET'') JUndefined JUndefined =
       Inr (JStr ''PAYLOAD'')"
    using d t
    by (simp add: example_store_def example_jwt_def jwtiParamExists_def
        verify_def verify_checks_def check_user_client_def check_user_def check_client_def
        check_token_def getUserInvalidationTime_def getTokenInvalidationTime_def
        redis_get_def Let_def)
  show ?thesis
    using reordered_keys_differ i v by simp
qed

text \<open>
  Claim C8, amended. The key of a structured identifier is its \<^verbatim>\<open>JSON.stringify\<close>
  form, fields in the order the object enumerates them (nothing sorts them), and the
  invalidation and the lookup of \<^verbatim>\<open>verify\<close> derive it alike: invalidating the user \<open>u\<close>
  writes the record under \<^verbatim>\<open>user::\<close> followed by that form, and \<^verbatim>\<open>verify\<close> then revokes
  every token issued earlier whose metadata holds the same value \<open>u\<close>, fields in the same
  order (with type \<^verbatim>\<open>user\<close> and the instant of the invalidation when the metadata has
  no client).
\<close>

theorem invalidate_then_verify_same_identifier:
  assumes "jwt_verify jwt token secret options callback = Inr decoded"
    and "truthy decoded"
    and "get_prop (jwt_decode jwt token) ''header'' = JObj hs"
    and "get_prop (JObj hs) ''jwti'' = JObj ms"
    and "(let i = get_prop (JObj ms) ''iat''
          in if truthy i then i else get_prop decoded ''iat'') = JNum iat"
    and "0 < iat" and "iat < of_int date_now / 1000"
    and "get_prop (JObj ms) ''user'' = u" and "jwtiParamExists u"
    and "get_prop (JObj ms) ''client'' = c"
    and "\<not> fails st (OpSet (userInvalidationKey u))"
    and "\<not> fails st (OpGet (userInvalidationKey u))"
  shows "invalidate date_now st (JObj [(''user'', u)]) =
           Inr (st\<lparr>kv := (kv st)(''user::'' @ identKey u \<mapsto> of_int date_now / 1000)\<rparr>)
      \<and> (\<exists>ty t.
           verify jwt (st\<lparr>kv := (kv st)(''user::'' @ identKey u \<mapsto> of_int date_now / 1000)\<rparr>)
             token secret options callback = Inl (InvalidatedTokenError ty t))
      \<and> (c = JUndefined \<longrightarrow>
           verify jwt (st\<lparr>kv := (kv st)(''user::'' @ identKey u \<mapsto> of_int date_now / 1000)\<rparr>)
             token secret options callback =
           Inl (InvalidatedTokenError TYPE_USER (of_int date_now / 1000)))
      \<and> (typeof u = TObject \<longrightarrow> stringify u = Some (identKey u))"
proof -
  let ?st' = "st\<lparr>kv := (kv st)(userInvalidationKey u \<mapsto> of_int date_now / 1000)\<rparr>"
  have nz: "iat \<noteq> 0"
    using assms(6) by simp
  have i: "invalidate date_now st (JObj [(''user'', u)]) = Inr ?st'"
    by (rule invalidate_user_ok [OF assms(9,11)])
  have n: "record_newer ?st' (userInvalidationKey u) iat"
    using assms(7,12) by (simp add: record_newer_def redis_get_def)
  have cu: "check_user ?st' u iat =
      Some (InvalidatedTokenError TYPE_USER (of_int date_now / 1000))"
    by (rule check_user_newer [OF assms(9)]) (use assms in simp_all)
  have v: "verify jwt ?st' token secret options callback =
      verify_checks ?st' token u c iat decoded"
    using verify_with_metadata [OF assms(1-5) nz, of ?st'] assms(8,10) by simp
  have some: "\<exists>ty t. verify jwt ?st' token secret options callback =
      Inl (InvalidatedTokenError ty t)"
    unfolding v using verify_checks_revoked_iff [OF assms(6), of ?st' token u c decoded] n assms(9)
    by simp
  have user: "c = JUndefined \<longrightarrow> verify jwt ?st' token secret options callback =
      Inl (InvalidatedTokenError TYPE_USER (of_int date_now / 1000))"
    unfolding v
    by (simp add: verify_checks_def cu check_user_client_def jwtiParamExists_def)
  have k: "typeof u = TObject \<longrightarrow> stringify u = Some (identKey u)"
    using assms(9) by (cases u) (simp_all add: identKey_def jwtiParamExists_def)
  show ?thesis
    using i some user k by (simp add: userInvalidationKey_def)
qed

text \<open>
  The amended claim at the user \<^verbatim>\<open>{a: 1, b: 2}\<close>, invalidated at clock reading 5000: a
  token issued at instant 1 for that same object is revoked.
\<close>

theorem invalidate_then_verify_same_identifier_witness:
  "invalidate 5000 (example_store Map.empty)
      (JObj [(''user'', JObj [(''a'', JNum 1), (''b'', JNum 2)])]) =
     Inr (example_store [''user::'' @ identKey (JObj [(''a'', JNum 1), (''b'', JNum 2)]) \<mapsto> 5])
   \<and> verify (example_jwt (JStr ''PAYLOAD'')
               (JObj [(''jwti'', JObj [(''user'', JObj [(''a'', JNum 1), (''b'', JNum 2)]),
                                       (''iat'', JNum 1)])]))
        (example_store [''user::'' @ identKey (JObj [(''a'', JNum 1), (''b'', JNum 2)]) \<mapsto> 5])
        ''tok'' (JStr ''SECRET'') JUndefined JUndefined =
       Inl (InvalidatedTokenError TYPE_USER 5)
   \<and> stringify (JObj [(''a'', JNum 1), (''b'', JNum 2)]) =
       Some (identKey (JObj [(''a'', JNum 1), (''b'', JNum 2)]))"
  using invalidate_then_verify_same_identifier
    [where jwt = "example_jwt (JStr ''PAYLOAD'')
               (JObj [(''jwti'', JObj [(''user'', JObj [(''a'', JNum 1), (''b'', JNum 2)]),
                                       (''iat'', JNum 1)])])"
       and token = "''tok''" and secret = "JStr ''SECRET''" and options = JUndefined
       and callback = JUndefined and decoded = "JStr ''PAYLOAD''"
       and hs = "[(''jwti'', JObj [(''user'', JObj [(''a'', JNum 1), (''b'', JNum 2)]),
                                   (''iat'', JNum 1)])]"
       and ms = "[(''user'', JObj [(''a'', JNum 1), (''b'', JNum 2)]), (''iat'', JNum 1)]"
       and iat = 1 and date_now = 5000
       and u = "JObj [(''a'', JNum 1), (''b'', JNum 2)]" and c = JUndefined
       and st = "example_store Map.empty"]
  by (simp add: example_jwt_def example_store_def jwtiParamExists_def)

section \<open>sign and the caller's options\<close>

lemma map_of_obj_delete:
  "map_of (obj_delete ps k) k' = (if k' = k then None else map_of ps k')"
  by (induction ps) (auto simp: obj_delete_def)

lemma map_of_obj_set:
  "map_of (obj_set ps k v) k' = (if k' = k then Some v else map_of ps k')"
  by (induction ps) auto

lemma assign_jwti_header_options:
  "snd (assign_jwti_header (JObj ps) h) = JObj ps
   \<or> (\<exists>hd. snd (assign_jwti_header (JObj ps) h) = JObj (obj_set ps ''header'' hd))"
  by (auto simp add: assign_jwti_header_def Let_def split: jsval.splits)

lemma sign_options_after:
  "snd (sign jwt date_now payload secret (JObj ps) callback) =
     delete_prop (delete_prop (delete_prop (snd (assign_jwti_header (JObj ps)
        (createJwtiHeader (get_prop (JObj ps) ''user'') (get_prop (JObj ps) ''client'')
           (if truthy (let p = get_prop (JObj ps) ''precise''
                       in if p = JUndefined then JBool False else p)
               \<or> typeof payload \<noteq> TObject
            then JNum (of_int date_now / 1000) else JUndefined)))) ''user'') ''client'') ''precise''"
  by (simp add: sign_def Let_def split: prod.splits del: get_prop.simps)

text \<open>
  Claim C9. When \<^verbatim>\<open>sign\<close> is called with an options object, the object the caller
  passed is an object afterwards that has no \<^verbatim>\<open>user\<close>, no \<^verbatim>\<open>client\<close> and no
  \<^verbatim>\<open>precise\<close> property, whatever \<^verbatim>\<open>jwt.sign\<close> returns; every property other than these
  three and \<^verbatim>\<open>header\<close> reads as before.
\<close>

theorem sign_deletes_jwti_params:
  "typeof (snd (sign jwt date_now payload secret (JObj ps) callback)) = TObject
   \<and> \<not> has_own_prop (snd (sign jwt date_now payload secret (JObj ps) callback)) ''user''
   \<and> \<not> has_own_prop (snd (sign jwt date_now payload secret (JObj ps) callback)) ''client''
   \<and> \<not> has_own_prop (snd (sign jwt date_now payload secret (JObj ps) callback)) ''precise''
   \<and> (k \<notin> {''user'', ''client'', ''precise'', ''header''} \<longrightarrow>
        get_prop (snd (sign jwt date_now payload secret (JObj ps) callback)) k =
        get_prop (JObj ps) k)"
proof -
  let ?h = "createJwtiHeader (get_prop (JObj ps) ''user'') (get_prop (JObj ps) ''client'')
           (if truthy (let p = get_prop (JObj ps) ''precise''
                       in if p = JUndefined then JBool False else p)
               \<or> typeof payload \<noteq> TObject
            then JNum (of_int date_now / 1000) else JUndefined)"
  from assign_jwti_header_options [of ps ?h]
  obtain ps1 where a: "snd (assign_jwti_header (JObj ps) ?h) = JObj ps1"
    and b: "ps1 = ps \<or> (\<exists>hd. ps1 = obj_set ps ''header'' hd)"
    by auto
  have s: "snd (sign jwt date_now payload secret (JObj ps) callback) =
      JObj (obj_delete (obj_delete (obj_delete ps1 ''user'') ''client'') ''precise'')"
    by (simp only: sign_options_after a delete_prop.simps)
  have other: "k \<notin> {''user'', ''client'', ''precise'', ''header''} \<Longrightarrow> map_of ps1 k = map_of ps k"
    using b by (auto simp: map_of_obj_set)
  show ?thesis
    using other
    by (auto simp add: s has_own_prop_def map_of_obj_delete)
qed

text \<open>
  Options with a user, a client, the precise flag and an expiry: before the call the
  object has the \<^verbatim>\<open>user\<close> property, after it the three are gone and the expiry is kept.
\<close>

theorem sign_deletes_jwti_params_witness:
  "has_own_prop (JObj [(''user'', JNum 1), (''client'', JStr ''web''), (''precise'', JBool True),
               (''expiresIn'', JNum 60)]) ''user''
   \<and> \<not> has_own_prop (snd (sign (example_jwt (JStr ''PAYLOAD'') (JObj [])) 5000
        (JStr ''PAYLOAD'') (JStr ''SECRET'')
        (JObj [(''user'', JNum 1), (''client'', JStr ''web''), (''precise'', JBool True),
               (''expiresIn'', JNum 60)]) JUndefined)) ''user''
   \<and> \<not> has_own_prop (snd (sign (example_jwt (JStr ''PAYLOAD'') (JObj [])) 5000
        (JStr ''PAYLOAD'') (JStr ''SECRET'')
        (JObj [(''user'', JNum 1), (''client'', JStr ''web''), (''precise'', JBool True),
               (''expiresIn'', JNum 60)]) JUndefined)) ''client''
   \<and> \<not> has_own_prop (snd (sign (example_jwt (JStr ''PAYLOAD'') (JObj [])) 5000
        (JStr ''PAYLOAD'') (JStr ''SECRET'')
        (JObj [(''user'', JNum 1), (''client'', JStr ''web''), (''precise'', JBool True),
               (''expiresIn'', JNum 60)]) JUndefined)) ''precise''
   \<and> get_prop (snd (sign (example_jwt (JStr ''PAYLOAD'') (JObj [])) 5000
        (JStr ''PAYLOAD'') (JStr ''SECRET'')
        (JObj [(''user'', JNum 1), (''client'', JStr ''web''), (''precise'', JBool True),
               (''expiresIn'', JNum 60)]) JUndefined)) ''expiresIn'' = JNum 60"
  using sign_deletes_jwti_params [of "example_jwt (JStr ''PAYLOAD'') (JObj [])" 5000
      "JStr ''PAYLOAD''" "JStr ''SECRET''"
      "[(''user'', JNum 1), (''client'', JStr ''web''), (''precise'', JBool True),
        (''expiresIn'', JNum 60)]" JUndefined "''expiresIn''"]
  by (simp add: has_own_prop_def)

section \<open>Parameters with neither a user nor a client\<close>

text \<open>
  Claim C10. For a parameter object in which neither \<^verbatim>\<open>user\<close> nor \<^verbatim>\<open>client\<close> exists
  (absent, \<^verbatim>\<open>undefined\<close> or \<^verbatim>\<open>null\<close>), \<^verbatim>\<open>invalidate\<close> resolves and \<^verbatim>\<open>revert\<close> returns
  false, and both leave the store as it is. This holds on every store, also on one all
  of whose calls reject.
\<close>

theorem no_user_no_client_is_a_noop:
  assumes "typeof p \<noteq> TString" and "\<not> nullish p"
    and "\<not> jwtiParamExists (get_prop p ''user'')"
    and "\<not> jwtiParamExists (get_prop p ''client'')"
  shows "invalidate date_now st p = Inr st \<and> revert st p = Inr (False, st)"
  using assms
  by (simp add: invalidate_dispatch revert_dispatch not_exists_falsy Let_def)

text \<open>The empty object, on a store that rejects every call.\<close>

theorem no_user_no_client_is_a_noop_witness:
  "invalidate 5000 (failing_store example_records) (JObj []) =
     Inr (failing_store example_records)
   \<and> revert (failing_store example_records) (JObj []) =
       Inr (False, failing_store example_records)"
  using no_user_no_client_is_a_noop [of "JObj []" 5000 "failing_store example_records"]
  by (simp add: jwtiParamExists_def)

end
